theory Spec2Isabelle
  imports Complex_Main
begin

section \<open>Values and rows\<close>

text \<open>
  The handlers work on JSON request bodies and on the rows the store returns. A JSON
  number is a rational, a \<open>Date\<close> produced by a schema transform is \<open>JDate\<close> (with
  \<open>None\<close> for an invalid date). An object (a request body, a Lead row, an Order row) is a
  map from keys to values: \<open>k in body\<close> is \<open>k \<in> dom body\<close>, a missing key reads as
  \<open>undefined\<close>, which is \<open>None\<close>.
\<close>

datatype json =
    JNull
  | JBool bool
  | JNum rat
  | JStr string
  | JDate "int option"
  | JArr "json list"

type_synonym row = "string \<rightharpoonup> json"

text \<open>JavaScript truthiness of a value read from an object.\<close>

fun truthy :: "json option \<Rightarrow> bool" where
  "truthy None = False"
| "truthy (Some JNull) = False"
| "truthy (Some (JBool b)) = b"
| "truthy (Some (JNum r)) = (r \<noteq> 0)"
| "truthy (Some (JStr s)) = (s \<noteq> [])"
| "truthy (Some (JDate d)) = True"
| "truthy (Some (JArr xs)) = True"

text \<open>
  A JavaScript number is a binary64 double. \<open>binary64 x\<close> is the double nearest to the
  rational \<open>x\<close>: 53 significant bits, round to nearest with ties to even, and gradual
  underflow below \<open>2 powi - 1022\<close>; a double is rounded to itself. There is no largest
  exponent here: from \<open>2 ^ 1024\<close> on, where JavaScript has \<open>Infinity\<close>, the value is still
  rounded to 53 bits; no number in a row or in a request body is that large.
\<close>

definition roundHalfEven :: "rat \<Rightarrow> int" where
  "roundHalfEven x =
     (let n = \<lfloor>x\<rfloor>; d = x - of_int n
      in if d < 1 / 2 then n else if 1 / 2 < d then n + 1 else if even n then n else n + 1)"

text \<open>
  The binary exponent of a positive number and its significand in \<open>[1, 2)\<close>; below
  \<open>2 powi - 1022\<close> the exponent stays at \<open>- 1022\<close> and the significand is below 1.
\<close>

function scaleUp :: "int \<Rightarrow> rat \<Rightarrow> int \<times> rat" where
  "scaleUp e x = (if x < 1 \<and> - 1022 < e then scaleUp (e - 1) (2 * x) else (e, x))"
  by pat_completeness auto
termination
  by (relation "measure (\<lambda>(e, x). nat (e + 1022))") auto

function scaleDown :: "int \<Rightarrow> rat \<Rightarrow> int \<times> rat" where
  "scaleDown e x = (if 2 \<le> x then scaleDown (e + 1) (x / 2) else (e, x))"
  by pat_completeness auto
termination
proof (relation "measure (\<lambda>(e, x). nat \<lfloor>x\<rfloor>)")
  show "wf (measure (\<lambda>(e, x). nat \<lfloor>x\<rfloor>))" by simp
next
  fix e :: int and x :: rat
  assume "2 \<le> x"
  then have "x / 2 \<le> x - 1" by simp
  then have "\<lfloor>x / 2\<rfloor> \<le> \<lfloor>x - 1\<rfloor>" by (rule floor_mono)
  moreover have "1 \<le> \<lfloor>x - 1\<rfloor>" using \<open>2 \<le> x\<close> by (simp add: le_floor_iff)
  ultimately show "((e + 1, x / 2), (e, x)) \<in> measure (\<lambda>(e, x). nat \<lfloor>x\<rfloor>)"
    by simp
qed

declare scaleUp.simps [simp del] scaleDown.simps [simp del]

definition nearest :: "rat \<Rightarrow> rat" where
  "nearest x =
     (let (e, m) = (if x < 1 then scaleUp 0 x else scaleDown 0 x)
      in of_int (roundHalfEven (m * 2 ^ 52)) * 2 powi (e - 52))"

definition binary64 :: "rat \<Rightarrow> rat" where
  "binary64 x = (if x = 0 then 0 else if x < 0 then - nearest (- x) else nearest x)"

text \<open>
  \<open>Number(x)\<close> on the values the amount columns hold: a number is read as a double,
  \<open>null\<close> is 0, \<open>undefined\<close> is NaN (\<open>None\<close>). A comparison with NaN is false.
\<close>

fun Number :: "json option \<Rightarrow> rat option" where
  "Number (Some (JNum r)) = Some (binary64 r)"
| "Number (Some JNull) = Some 0"
| "Number (Some (JBool b)) = Some (if b then 1 else 0)"
| "Number (Some (JDate d)) = map_option rat_of_int d"
| "Number uu = None"

text \<open>The value of a validated number, as it is compared and handed on without \<open>Number\<close>.\<close>

fun numberOf :: "json option \<Rightarrow> rat option" where
  "numberOf (Some (JNum r)) = Some r"
| "numberOf uu = None"

fun num_gt :: "rat option \<Rightarrow> rat option \<Rightarrow> bool" where
  "num_gt (Some a) (Some b) = (a > b)"
| "num_gt uu uv = False"

section \<open>Rate limiter (lib/rate-limit.ts)\<close>

record rl_record =
  count :: int
  resetTime :: int

type_synonym rateLimitMap = "string \<rightharpoonup> rl_record"

text \<open>
  \<open>rateLimit(ip, limit = 100, windowMs = 15 * 60 * 1000)\<close>. The module-level map is the
  state; \<open>Date.now()\<close> is the argument \<open>now\<close>. The result is the boolean and the map
  after the call.
\<close>

definition rateLimit :: "rateLimitMap \<Rightarrow> int \<Rightarrow> string \<Rightarrow> int \<Rightarrow> int \<Rightarrow> bool \<times> rateLimitMap" where
  "rateLimit m now ip limit windowMs =
     (case m ip of
        None \<Rightarrow> (True, m(ip \<mapsto> \<lparr>count = 1, resetTime = now + windowMs\<rparr>))
      | Some r \<Rightarrow>
          if now > resetTime r
          then (True, m(ip \<mapsto> \<lparr>count = 1, resetTime = now + windowMs\<rparr>))
          else if count r \<ge> limit then (False, m)
          else (True, m(ip \<mapsto> r\<lparr>count := count r + 1\<rparr>)))"

definition default_limit :: int where
  "default_limit = 100"

definition default_windowMs :: int where
  "default_windowMs = 15 * 60 * 1000"

text \<open>
  A run of calls for one client, one per entry of the list of clock readings; the
  answers are collected in order.
\<close>

fun rateLimit_run :: "rateLimitMap \<Rightarrow> string \<Rightarrow> int \<Rightarrow> int \<Rightarrow> int list \<Rightarrow> bool list \<times> rateLimitMap" where
  "rateLimit_run m ip limit windowMs [] = ([], m)"
| "rateLimit_run m ip limit windowMs (t # ts) =
     (let (ok, m') = rateLimit m t ip limit windowMs;
          (oks, m'') = rateLimit_run m' ip limit windowMs ts
      in (ok # oks, m''))"

text \<open>The periodic sweep: every entry whose reset time has passed is deleted.\<close>

definition sweep :: "rateLimitMap \<Rightarrow> int \<Rightarrow> rateLimitMap" where
  "sweep m now = (\<lambda>ip. case m ip of
                        None \<Rightarrow> None
                      | Some r \<Rightarrow> if now > resetTime r then None else Some r)"

section \<open>The store\<close>

text \<open>
  The tables the handlers read and write. A User carries its role and, through its role
  assignments, the permissions of every role assigned to it. Leads and Orders are rows
  (the handlers spread request data into them and update them by key); Payments, audit
  log entries and notifications are only ever appended.
\<close>

datatype userRole = ADMIN | EMPLOYEE

record permission =
  perm_module :: string
  perm_action :: string

record rolePermission =
  rp_permission :: permission

record role_row =
  role_permissions :: "rolePermission list"

record roleAssignment =
  ra_role :: role_row

record user =
  u_id :: string
  u_role :: userRole
  u_isActive :: bool
  u_roleAssignments :: "roleAssignment list"

datatype paymentType = INITIAL | PARTIAL

record payment =
  pay_orderId :: string
  pay_amount :: rat
  pay_paymentType :: paymentType
  pay_paymentMethod :: json
  pay_referenceNumber :: "json option"
  pay_receivedBy :: string

text \<open>
  The \<open>changes\<close> argument of an audit entry is one of the object shapes the handlers
  build; the free-text description and the notification message are interpolated
  strings that no handler reads back, and are left out of the entries.
\<close>

datatype changes =
    Created row
  | OldNew row row
  | OldNewFields row row row
  | Assigned string

record auditLog =
  al_userId :: string
  al_action :: string
  al_entityType :: string
  al_entityId :: string
  al_changes :: changes
  al_ipAddress :: string
  al_userAgent :: "string option"

record notification =
  n_userId :: "json option"
  n_type :: string
  n_title :: string
  n_entityType :: string
  n_entityId :: string

record store =
  users :: "user list"
  leads :: "row list"
  orders :: "row list"
  payments :: "payment list"
  auditLogs :: "auditLog list"
  notifications :: "notification list"
  rateLimits :: rateLimitMap

text \<open>
  What a request meets outside the store: the clock, whether a write of the audit-log
  table or of the notification table fails, the id the store gives a created Order, the
  clock readings and random draws \<open>generateOrderNumber\<close> sees, and the two library
  parsers the handlers call (\<open>new Date(str)\<close>, with \<open>None\<close> for an invalid date, and
  \<open>parseInt(str, 10)\<close>, with \<open>None\<close> for NaN), the schema's e-mail test, and the
  store's substring match (\<open>contains\<close>, under its collation).
\<close>

record env =
  dateNow :: int
  auditCreateFails :: "auditLog \<Rightarrow> bool"
  notificationCreateFails :: "notification \<Rightarrow> bool"
  newOrderId :: string
  draws :: "(nat \<times> nat) list"
  parseDate :: "string \<Rightarrow> int option"
  parseInt :: "string \<Rightarrow> int option"
  isEmail :: "string \<Rightarrow> bool"
  dbContains :: "string \<Rightarrow> string \<Rightarrow> bool"

datatype exn = Error string | ZodError | PrismaError

definition user_findUnique :: "store \<Rightarrow> string \<Rightarrow> user option" where
  "user_findUnique s uid = find (\<lambda>u. u_id u = uid) (users s)"

definition row_findUnique :: "row list \<Rightarrow> string \<Rightarrow> string \<Rightarrow> row option" where
  "row_findUnique rows k v = find (\<lambda>r. r k = Some (JStr v)) rows"

text \<open>\<open>update({ where: { id }, data })\<close>: the row with that id takes the given columns.\<close>

definition row_update :: "row list \<Rightarrow> string \<Rightarrow> row \<Rightarrow> row list" where
  "row_update rows i upd =
     map (\<lambda>r. if r ''id'' = Some (JStr i) then r ++ upd else r) rows"

section \<open>Permission checker (lib/permissions.ts)\<close>

definition hasPermission :: "store \<Rightarrow> string \<Rightarrow> string \<Rightarrow> string \<Rightarrow> bool" where
  "hasPermission s userId modl action =
     (case user_findUnique s userId of
        None \<Rightarrow> False
      | Some u \<Rightarrow>
          if u_role u = ADMIN then True
          else list_ex (\<lambda>ra.
                 list_ex (\<lambda>rp. perm_module (rp_permission rp) = modl \<and>
                               perm_action (rp_permission rp) = action)
                   (role_permissions (ra_role ra)))
               (u_roleAssignments u))"

definition requirePermission :: "store \<Rightarrow> string \<Rightarrow> string \<Rightarrow> string \<Rightarrow> exn + unit" where
  "requirePermission s userId modl action =
     (if \<not> hasPermission s userId modl action
      then Inl (Error ''Insufficient permissions'')
      else Inr ())"

section \<open>Audit recorder (lib/audit.ts) and notification dispatcher (lib/notifications.ts)\<close>

text \<open>The write of the audit-log table, which may throw.\<close>

definition auditLog_create :: "env \<Rightarrow> store \<Rightarrow> auditLog \<Rightarrow> exn + store" where
  "auditLog_create e s entry =
     (if auditCreateFails e entry then Inl PrismaError
      else Inr (s\<lparr>auditLogs := auditLogs s @ [entry]\<rparr>))"

text \<open>
  \<open>createAuditLog\<close>: the write stands in a \<open>try\<close> whose \<open>catch\<close> logs and does not
  rethrow. The result type still has room for an exception.
\<close>

definition createAuditLog :: "env \<Rightarrow> store \<Rightarrow> auditLog \<Rightarrow> exn + store" where
  "createAuditLog e s entry =
     (case auditLog_create e s entry of
        Inr s' \<Rightarrow> Inr s'
      | Inl err \<Rightarrow> Inr s)"

text \<open>A handler awaits \<open>createAuditLog\<close> inside its own \<open>try\<close>.\<close>

definition notification_create :: "env \<Rightarrow> store \<Rightarrow> notification \<Rightarrow> exn + store" where
  "notification_create e s n =
     (if notificationCreateFails e n then Inl PrismaError
      else Inr (s\<lparr>notifications := notifications s @ [n]\<rparr>))"

definition createNotification :: "env \<Rightarrow> store \<Rightarrow> notification \<Rightarrow> store" where
  "createNotification e s n =
     (case notification_create e s n of
        Inr s' \<Rightarrow> s'
      | Inl err \<Rightarrow> s)"

text \<open>The loop \<open>for (const admin of admins) await createNotification(...)\<close>.\<close>

definition activeAdmins :: "store \<Rightarrow> user list" where
  "activeAdmins s = filter (\<lambda>u. u_role u = ADMIN \<and> u_isActive u) (users s)"

definition notifyAdmins :: "env \<Rightarrow> store \<Rightarrow> string \<Rightarrow> string \<Rightarrow> string \<Rightarrow> string \<Rightarrow> store" where
  "notifyAdmins e s ty title entityType entityId =
     foldl (\<lambda>acc admin. createNotification e acc
              \<lparr>n_userId = Some (JStr (u_id admin)), n_type = ty, n_title = title,
               n_entityType = entityType, n_entityId = entityId\<rparr>)
       s (activeAdmins s)"

section \<open>Requests and responses\<close>

record session_user =
  su_id :: string
  su_role :: userRole

text \<open>
  A request as a handler sees it: the session (\<open>None\<close> when there is none), the two
  headers read, the parsed JSON body (\<open>None\<close> when \<open>req.json()\<close> throws), the route
  parameter \<open>id\<close> and the query string.
\<close>

record request =
  session :: "session_user option"
  forwardedFor :: "string option"
  userAgent :: "string option"
  jsonBody :: "row option"
  paramId :: string
  searchParams :: "string \<rightharpoonup> string"

record pagination =
  pg_page :: int
  pg_limit :: int
  pg_total :: nat
  pg_totalPages :: "int option"

datatype payload =
    ErrorMsg string
  | ZodIssues
  | Entity row
  | Listing "row list" pagination
  | SuccessCount nat

record response =
  status :: nat
  payload :: payload

definition unauthorized :: response where
  "unauthorized = \<lparr>status = 401, payload = ErrorMsg ''Unauthorized''\<rparr>"

definition tooManyRequests :: response where
  "tooManyRequests = \<lparr>status = 429, payload = ErrorMsg ''Too many requests''\<rparr>"

definition forbidden :: response where
  "forbidden = \<lparr>status = 403, payload = ErrorMsg ''Forbidden''\<rparr>"

definition notFound :: "string \<Rightarrow> response" where
  "notFound what = \<lparr>status = 404, payload = ErrorMsg (what @ '' not found'')\<rparr>"

definition badRequest :: response where
  "badRequest = \<lparr>status = 400, payload = ZodIssues\<rparr>"

definition internalError :: response where
  "internalError = \<lparr>status = 500, payload = ErrorMsg ''Internal server error''\<rparr>"

text \<open>\<open>!session?.user?.id\<close>: no session, or an empty id.\<close>

definition sessionUser :: "request \<Rightarrow> session_user option" where
  "sessionUser req =
     (case session req of
        None \<Rightarrow> None
      | Some u \<Rightarrow> if su_id u = [] then None else Some u)"

text \<open>\<open>req.headers.get('x-forwarded-for') || 'unknown'\<close>\<close>

definition clientIp :: "request \<Rightarrow> string" where
  "clientIp req =
     (case forwardedFor req of
        None \<Rightarrow> ''unknown''
      | Some ip \<Rightarrow> if ip = [] then ''unknown'' else ip)"

text \<open>\<open>req.headers.get('user-agent') || undefined\<close>\<close>

definition agent :: "request \<Rightarrow> string option" where
  "agent req =
     (case userAgent req of
        None \<Rightarrow> None
      | Some ua \<Rightarrow> if ua = [] then None else Some ua)"

text \<open>\<open>rateLimit(ip)\<close> with the default limit and window, on the store's map.\<close>

definition rateLimitIp :: "env \<Rightarrow> store \<Rightarrow> request \<Rightarrow> bool \<times> store" where
  "rateLimitIp e s req =
     (let (ok, m) = rateLimit (rateLimits s) (dateNow e) (clientIp req)
                      default_limit default_windowMs
      in (ok, s\<lparr>rateLimits := m\<rparr>))"

text \<open>The generic \<open>catch\<close> of the order and lead handlers.\<close>

definition catch_zod :: "exn \<Rightarrow> response" where
  "catch_zod err = (if err = ZodError then badRequest else internalError)"

text \<open>The \<open>catch\<close> of the permission-gated handlers.\<close>

definition catch_permission :: "exn \<Rightarrow> response" where
  "catch_permission err =
     (if err = Error ''Insufficient permissions'' then forbidden
      else if err = ZodError then badRequest
      else internalError)"

section \<open>Schema validators\<close>

fun isString :: "json option \<Rightarrow> bool" where
  "isString (Some (JStr s)) = True"
| "isString uu = False"

fun optString :: "json option \<Rightarrow> bool" where
  "optString None = True"
| "optString v = isString v"

fun isNumberMin0 :: "json option \<Rightarrow> bool" where
  "isNumberMin0 (Some (JNum r)) = (0 \<le> r)"
| "isNumberMin0 uu = False"

fun optNumberMin0 :: "json option \<Rightarrow> bool" where
  "optNumberMin0 None = True"
| "optNumberMin0 v = isNumberMin0 v"

fun isEnum :: "string list \<Rightarrow> json option \<Rightarrow> bool" where
  "isEnum xs (Some (JStr s)) = (s \<in> set xs)"
| "isEnum xs uu = False"

fun optEnum :: "string list \<Rightarrow> json option \<Rightarrow> bool" where
  "optEnum xs None = True"
| "optEnum xs v = isEnum xs v"

text \<open>\<open>z.union([z.string(), z.literal(''), z.null()]).optional()\<close>\<close>

fun optStringOrNull :: "json option \<Rightarrow> bool" where
  "optStringOrNull None = True"
| "optStringOrNull (Some JNull) = True"
| "optStringOrNull v = isString v"

text \<open>\<open>z.union([z.enum([...]), z.literal(''), z.null()]).optional()\<close>\<close>

fun optEnumOrEmptyOrNull :: "string list \<Rightarrow> json option \<Rightarrow> bool" where
  "optEnumOrEmptyOrNull xs None = True"
| "optEnumOrEmptyOrNull xs (Some JNull) = True"
| "optEnumOrEmptyOrNull xs (Some (JStr s)) = (s = [] \<or> s \<in> set xs)"
| "optEnumOrEmptyOrNull xs uu = False"

text \<open>\<open>z.number().int().positive().optional()\<close>\<close>

fun optPositiveInt :: "json option \<Rightarrow> bool" where
  "optPositiveInt None = True"
| "optPositiveInt (Some (JNum r)) = (0 < r \<and> snd (quotient_of r) = 1)"
| "optPositiveInt uu = False"

text \<open>\<open>z.string().email().optional().or(z.literal(''))\<close>\<close>

fun optEmail :: "(string \<Rightarrow> bool) \<Rightarrow> json option \<Rightarrow> bool" where
  "optEmail ok None = True"
| "optEmail ok (Some (JStr s)) = (ok s \<or> s = [])"
| "optEmail ok uu = False"

section \<open>Bulk assignment of leads (POST, body \<open>{ leadIds, assignedTo }\<close>)\<close>

text \<open>\<open>z.object({ leadIds: z.array(z.string()), assignedTo: z.string().min(1) })\<close>\<close>

fun stringsOf :: "json list \<Rightarrow> string list option" where
  "stringsOf [] = Some []"
| "stringsOf (JStr x # xs) = map_option ((#) x) (stringsOf xs)"
| "stringsOf (v # xs) = None"

definition bulkAssignSchema_parse :: "row \<Rightarrow> (string list \<times> string) option" where
  "bulkAssignSchema_parse body =
     (case (body ''leadIds'', body ''assignedTo'') of
        (Some (JArr xs), Some (JStr a)) \<Rightarrow>
          (case stringsOf xs of
             None \<Rightarrow> None
           | Some ids \<Rightarrow> if a = [] then None else Some (ids, a))
      | uu \<Rightarrow> None)"

definition idIn :: "string list \<Rightarrow> row \<Rightarrow> bool" where
  "idIn ids r = (case r ''id'' of Some (JStr i) \<Rightarrow> i \<in> set ids | uu \<Rightarrow> False)"

text \<open>\<open>updateMany({ where: { id: { in: leadIds } }, data: { assignedTo } })\<close>\<close>

definition lead_updateMany :: "row list \<Rightarrow> string list \<Rightarrow> string \<Rightarrow> row list" where
  "lead_updateMany rows ids a =
     map (\<lambda>r. if idIn ids r then r(''assignedTo'' \<mapsto> JStr a) else r) rows"

text \<open>The loop that writes one ASSIGN entry per requested lead id.\<close>

fun auditEach :: "env \<Rightarrow> store \<Rightarrow> auditLog list \<Rightarrow> exn option \<times> store" where
  "auditEach e s [] = (None, s)"
| "auditEach e s (a # as) =
     (case createAuditLog e s a of
        Inl err \<Rightarrow> (Some err, s)
      | Inr s' \<Rightarrow> auditEach e s' as)"

definition bulkAssign_POST :: "env \<Rightarrow> store \<Rightarrow> request \<Rightarrow> response \<times> store" where
  "bulkAssign_POST e s req =
     (case sessionUser req of
        None \<Rightarrow> (unauthorized, s)
      | Some u \<Rightarrow>
          (let (ok, s1) = rateLimitIp e s req in
           if \<not> ok then (tooManyRequests, s1)
           else
             (case requirePermission s1 (su_id u) ''leads'' ''update'' of
                Inl err \<Rightarrow> (catch_permission err, s1)
              | Inr granted \<Rightarrow>
                  (case jsonBody req of
                     None \<Rightarrow> (catch_permission (Error ''Unexpected end of JSON input''), s1)
                   | Some body \<Rightarrow>
                       (case bulkAssignSchema_parse body of
                          None \<Rightarrow> (catch_permission ZodError, s1)
                        | Some (leadIds, assignedTo) \<Rightarrow>
                            (case user_findUnique s1 assignedTo of
                               None \<Rightarrow> (notFound ''User'', s1)
                             | Some target \<Rightarrow>
                                 (let n = length (filter (idIn leadIds) (leads s1));
                                      s2 = s1\<lparr>leads :=
                                             lead_updateMany (leads s1) leadIds assignedTo\<rparr>
                                  in (case auditEach e s2
                                          (map (\<lambda>leadId.
                                             \<lparr>al_userId = su_id u, al_action = ''ASSIGN'',
                                              al_entityType = ''Lead'', al_entityId = leadId,
                                              al_changes = Assigned assignedTo,
                                              al_ipAddress = clientIp req,
                                              al_userAgent = agent req\<rparr>) leadIds) of
                                        (Some err, s3) \<Rightarrow> (catch_permission err, s3)
                                      | (None, s3) \<Rightarrow>
                                          (\<lparr>status = 200, payload = SuccessCount n\<rparr>,
                                           s3)))))))))"

section \<open>Order creation (POST /api/orders)\<close>

definition orderSchema_keys :: "string list" where
  "orderSchema_keys =
     [''leadId'', ''receivedAmount'', ''paymentStatus'', ''paymentMethod'',
      ''moneyOrderNumber'', ''totalAmount'', ''vppAmount'',
      ''addressLine1'', ''addressLine2'', ''addressLine3'', ''addressLine4'',
      ''addressLine5'', ''addressLine6'', ''pincodeId'', ''cityId'', ''state'',
      ''country'', ''station'', ''notes'']"

definition orderSchema_optStrings :: "string list" where
  "orderSchema_optStrings =
     [''paymentMethod'', ''moneyOrderNumber'',
      ''addressLine1'', ''addressLine2'', ''addressLine3'', ''addressLine4'',
      ''addressLine5'', ''addressLine6'', ''pincodeId'', ''cityId'', ''state'',
      ''country'', ''station'', ''notes'']"

fun nonEmptyString :: "json option \<Rightarrow> bool" where
  "nonEmptyString (Some (JStr s)) = (s \<noteq> [])"
| "nonEmptyString uu = False"

definition orderSchema_ok :: "row \<Rightarrow> bool" where
  "orderSchema_ok body =
     (nonEmptyString (body ''leadId'') \<and>
      isNumberMin0 (body ''receivedAmount'') \<and>
      isEnum [''PENDING'', ''PARTIAL'', ''FULL'', ''CUSTOM''] (body ''paymentStatus'') \<and>
      isNumberMin0 (body ''totalAmount'') \<and>
      isNumberMin0 (body ''vppAmount'') \<and>
      list_all (\<lambda>k. optString (body k)) orderSchema_optStrings)"

text \<open>\<open>orderSchema.parse(body)\<close>: the validated keys, any other key stripped.\<close>

definition orderSchema_parse :: "row \<Rightarrow> row option" where
  "orderSchema_parse body =
     (if orderSchema_ok body then Some (body |` set orderSchema_keys) else None)"

text \<open>
  \<open>generateOrderNumber\<close>, from the clock reading and the draw
  \<open>Math.floor(Math.random() * 1000)\<close> it sees.
\<close>

fun toString :: "nat \<Rightarrow> string" where
  "toString n =
     (if n < 10 then [''0123456789'' ! n]
      else toString (n div 10) @ [''0123456789'' ! (n mod 10)])"

declare toString.simps [simp del]

definition slice_last :: "nat \<Rightarrow> string \<Rightarrow> string" where
  "slice_last k str = drop (length str - k) str"

definition padStart :: "nat \<Rightarrow> char \<Rightarrow> string \<Rightarrow> string" where
  "padStart k c str = replicate (k - length str) c @ str"

definition generateOrderNumber :: "nat \<Rightarrow> nat \<Rightarrow> string" where
  "generateOrderNumber dateNowMs random1000 =
     ''G'' @ slice_last 6 (toString dateNowMs) @ padStart 3 (CHR ''0'') (toString random1000)"

text \<open>
  The loop \<open>while (exists) { orderNumber = generateOrderNumber(); exists = ... }\<close>, fed
  with the readings each call of \<open>generateOrderNumber\<close> sees. \<open>None\<close>: every reading
  supplied gave a number that is taken, and the loop is still running.
\<close>

fun pickOrderNumber :: "row list \<Rightarrow> (nat \<times> nat) list \<Rightarrow> string option" where
  "pickOrderNumber os [] = None"
| "pickOrderNumber os ((t, r) # ds) =
     (let orderNumber = generateOrderNumber t r in
      if row_findUnique os ''orderNumber'' orderNumber \<noteq> None
      then pickOrderNumber os ds
      else Some orderNumber)"

text \<open>\<open>a || b\<close> on values read from objects.\<close>

definition orElse :: "json option \<Rightarrow> json option \<Rightarrow> json option" where
  "orElse a b = (if truthy a then a else b)"

text \<open>
  \<open>prisma.order.create\<close>: the store gives the row its id; the write throws when the
  id is taken or when \<open>assignedTo\<close> is not a string.
\<close>

definition order_create :: "env \<Rightarrow> store \<Rightarrow> row \<Rightarrow> exn + (row \<times> store)" where
  "order_create e s r =
     (if row_findUnique (orders s) ''id'' (newOrderId e) \<noteq> None \<or> \<not> isString (r ''assignedTo'')
      then Inl PrismaError
      else let order = r(''id'' \<mapsto> JStr (newOrderId e))
           in Inr (order, s\<lparr>orders := orders s @ [order]\<rparr>))"

text \<open>The \<open>data\<close> object handed to \<open>prisma.order.create\<close>.\<close>

definition newOrderRow :: "session_user \<Rightarrow> row \<Rightarrow> row \<Rightarrow> json option \<Rightarrow> string \<Rightarrow> row" where
  "newOrderRow u data lead assignedTo orderNumber =
     (data ++
      [''leadId'' \<mapsto> the (data ''leadId''),
       ''orderNumber'' \<mapsto> JStr orderNumber,
       ''patientId'' \<mapsto> JStr orderNumber,
       ''status'' \<mapsto> JStr ''PENDING'',
       ''bookedBy'' \<mapsto> JStr (su_id u)])
     (''patientName'' := lead ''name'',
      ''assignedTo'' := assignedTo)"

text \<open>"Create initial payment record": \<open>if (data.receivedAmount > 0) ...\<close>\<close>

definition initialPayment :: "env \<Rightarrow> session_user \<Rightarrow> row \<Rightarrow> store \<Rightarrow> store" where
  "initialPayment e u data s =
     (if num_gt (numberOf (data ''receivedAmount'')) (Some 0)
      then s\<lparr>payments := payments s @
             [\<lparr>pay_orderId = newOrderId e,
               pay_amount = the (numberOf (data ''receivedAmount'')),
               pay_paymentType = INITIAL,
               pay_paymentMethod =
                 the (orElse (data ''paymentMethod'') (Some (JStr ''MONEY_ORDER''))),
               pay_referenceNumber = data ''moneyOrderNumber'',
               pay_receivedBy = su_id u\<rparr>]\<rparr>
      else s)"

text \<open>"Update lead status to CONVERTED"\<close>

definition markConverted :: "string \<Rightarrow> store \<Rightarrow> store" where
  "markConverted leadId s =
     s\<lparr>leads := row_update (leads s) leadId [''status'' \<mapsto> JStr ''CONVERTED'']\<rparr>"

text \<open>The two notification blocks that end the handler.\<close>

definition orderCreated_notify :: "env \<Rightarrow> session_user \<Rightarrow> json option \<Rightarrow> store \<Rightarrow> store" where
  "orderCreated_notify e u assignedTo s =
     (let s' =
            (if assignedTo \<noteq> Some (JStr (su_id u))
             then createNotification e s
                    \<lparr>n_userId = assignedTo, n_type = ''ORDER_CREATED'',
                     n_title = ''New Order Created'', n_entityType = ''Order'',
                     n_entityId = newOrderId e\<rparr>
             else s)
      in if su_role u = EMPLOYEE
         then notifyAdmins e s' ''ORDER_CREATED'' ''New Order Created'' ''Order'' (newOrderId e)
         else s')"

text \<open>
  "Employees can only assign orders to themselves":
  \<open>role === 'ADMIN' ? (body.assignedTo || session.user.id) : session.user.id\<close>
\<close>

definition orderAssignee :: "session_user \<Rightarrow> row \<Rightarrow> json option" where
  "orderAssignee u body =
     (if su_role u = ADMIN
      then orElse (body ''assignedTo'') (Some (JStr (su_id u)))
      else Some (JStr (su_id u)))"

text \<open>The handler from the point where the Lead has been found.\<close>

definition orders_POST_convert ::
  "env \<Rightarrow> store \<Rightarrow> request \<Rightarrow> session_user \<Rightarrow> row \<Rightarrow> row \<Rightarrow> string \<Rightarrow> row \<Rightarrow> (response \<times> store) option" where
  "orders_POST_convert e s1 req u body data leadId lead =
     (let assignedTo = orderAssignee u body
      in (case pickOrderNumber (orders s1) (draws e) of
            None \<Rightarrow> None
          | Some orderNumber \<Rightarrow>
              (case order_create e s1 (newOrderRow u data lead assignedTo orderNumber) of
                 Inl err \<Rightarrow> Some (catch_zod err, s1)
               | Inr (order, s2) \<Rightarrow>
                   (let s4 = markConverted leadId (initialPayment e u data s2)
                    in (case createAuditLog e s4
                            \<lparr>al_userId = su_id u, al_action = ''CREATE'',
                             al_entityType = ''Order'', al_entityId = newOrderId e,
                             al_changes = Created (data(''orderNumber'' \<mapsto> JStr orderNumber)),
                             al_ipAddress = clientIp req, al_userAgent = agent req\<rparr> of
                          Inl err \<Rightarrow> Some (catch_zod err, s4)
                        | Inr s5 \<Rightarrow>
                            Some (\<lparr>status = 201, payload = Entity order\<rparr>,
                                  orderCreated_notify e u assignedTo s5))))))"

definition orders_POST :: "env \<Rightarrow> store \<Rightarrow> request \<Rightarrow> (response \<times> store) option" where
  "orders_POST e s req =
     (case sessionUser req of
        None \<Rightarrow> Some (unauthorized, s)
      | Some u \<Rightarrow>
          (let (ok, s1) = rateLimitIp e s req in
           if \<not> ok then Some (tooManyRequests, s1)
           else
             (case jsonBody req of
                None \<Rightarrow> Some (catch_zod (Error ''Unexpected end of JSON input''), s1)
              | Some body \<Rightarrow>
                  (case orderSchema_parse body of
                     None \<Rightarrow> Some (catch_zod ZodError, s1)
                   | Some data \<Rightarrow>
                       (case data ''leadId'' of
                          Some (JStr leadId) \<Rightarrow>
                            (case row_findUnique (leads s1) ''id'' leadId of
                               None \<Rightarrow> Some (notFound ''Lead'', s1)
                             | Some lead \<Rightarrow>
                                 orders_POST_convert e s1 req u body data leadId lead)
                        | uu \<Rightarrow> Some (notFound ''Lead'', s1))))))"

section \<open>Order update (PATCH /api/orders/[id])\<close>

definition orderUpdateSchema_keys :: "string list" where
  "orderUpdateSchema_keys =
     [''status'', ''dispatchDate'', ''trackingId'', ''courierService'', ''weight'',
      ''receivedAmount'', ''paymentStatus'', ''paymentMethod'', ''moneyOrderNumber'',
      ''deliveredDate'', ''returnDate'', ''returnReason'', ''notes'']"

definition orderUpdateSchema_ok :: "row \<Rightarrow> bool" where
  "orderUpdateSchema_ok body =
     (optEnum [''PENDING'', ''PAYMENT_RECEIVED'', ''DISPATCHED'', ''IN_TRANSIT'',
               ''DELIVERED'', ''PAID'', ''RETURNED'', ''CANCELLED''] (body ''status'') \<and>
      optNumberMin0 (body ''weight'') \<and>
      optNumberMin0 (body ''receivedAmount'') \<and>
      optEnum [''PENDING'', ''PARTIAL'', ''FULL'', ''CUSTOM'', ''COMPLETED'']
        (body ''paymentStatus'') \<and>
      list_all (\<lambda>k. optString (body k))
        [''dispatchDate'', ''trackingId'', ''courierService'', ''paymentMethod'',
         ''moneyOrderNumber'', ''deliveredDate'', ''returnDate'', ''returnReason'',
         ''notes''])"

text \<open>\<open>z.string().transform((str) => new Date(str))\<close>\<close>

fun toDate :: "env \<Rightarrow> json option \<Rightarrow> json option" where
  "toDate e (Some (JStr str)) = Some (JDate (parseDate e str))"
| "toDate e v = v"

definition orderUpdateSchema_parse :: "env \<Rightarrow> row \<Rightarrow> row option" where
  "orderUpdateSchema_parse e body =
     (if orderUpdateSchema_ok body
      then Some ((body |` set orderUpdateSchema_keys)
                   (''dispatchDate'' := toDate e (body ''dispatchDate''),
                    ''deliveredDate'' := toDate e (body ''deliveredDate''),
                    ''returnDate'' := toDate e (body ''returnDate'')))
      else None)"

text \<open>\<open>prisma.order.update\<close> throws on an invalid \<open>Date\<close> among the columns it is given.\<close>

definition hasInvalidDate :: "row \<Rightarrow> bool" where
  "hasInvalidDate upd =
     list_ex (\<lambda>k. upd k = Some (JDate None)) [''dispatchDate'', ''deliveredDate'', ''returnDate'']"

text \<open>"Handle dispatch"\<close>

definition dispatchData :: "env \<Rightarrow> session_user \<Rightarrow> row \<Rightarrow> row \<Rightarrow> row" where
  "dispatchData e u existingOrder data =
     (if data ''status'' = Some (JStr ''DISPATCHED'') \<and> \<not> truthy (existingOrder ''dispatchedBy'')
      then (data(''dispatchedBy'' \<mapsto> JStr (su_id u)))
             (''dispatchDate'' :=
                (if \<not> truthy (data ''dispatchDate'')
                 then Some (JDate (Some (dateNow e)))
                 else data ''dispatchDate''))
      else data)"

text \<open>
  "Handle payment updates":
  \<open>data.receivedAmount && Number(data.receivedAmount) > Number(existingOrder.receivedAmount)\<close>.
  The amount of the Payment is \<open>Number(data.receivedAmount) - Number(existingOrder.receivedAmount)\<close>,
  a subtraction of doubles: the exact difference, rounded to the nearest double.
\<close>

definition paymentIncrease :: "row \<Rightarrow> row \<Rightarrow> bool" where
  "paymentIncrease existingOrder data =
     (truthy (data ''receivedAmount'') \<and>
      num_gt (Number (data ''receivedAmount'')) (Number (existingOrder ''receivedAmount'')))"

definition recordPayment :: "session_user \<Rightarrow> string \<Rightarrow> row \<Rightarrow> row \<Rightarrow> store \<Rightarrow> store" where
  "recordPayment u orderId existingOrder data s =
     (if paymentIncrease existingOrder data
      then s\<lparr>payments := payments s @
             [\<lparr>pay_orderId = orderId,
               pay_amount = binary64 (the (Number (data ''receivedAmount''))
                                      - the (Number (existingOrder ''receivedAmount''))),
               pay_paymentType =
                 (if num_gt (Number (existingOrder ''receivedAmount'')) (Some 0)
                  then PARTIAL else INITIAL),
               pay_paymentMethod =
                 the (orElse (data ''paymentMethod'')
                        (orElse (existingOrder ''paymentMethod'') (Some (JStr ''MONEY_ORDER'')))),
               pay_referenceNumber =
                 orElse (data ''moneyOrderNumber'') (existingOrder ''moneyOrderNumber''),
               pay_receivedBy = su_id u\<rparr>]\<rparr>
      else s)"

text \<open>The notification blocks that end the handler.\<close>

definition orderUpdated_notify ::
  "env \<Rightarrow> session_user \<Rightarrow> string \<Rightarrow> row \<Rightarrow> row \<Rightarrow> row \<Rightarrow> store \<Rightarrow> store" where
  "orderUpdated_notify e u orderId existingOrder data order s =
     (let s' =
            (if truthy (data ''status'') \<and> data ''status'' \<noteq> existingOrder ''status''
             then
               let a =
                     (if order ''assignedTo'' \<noteq> Some (JStr (su_id u))
                      then createNotification e s
                             \<lparr>n_userId = order ''assignedTo'',
                              n_type = ''ORDER_STATUS_CHANGED'',
                              n_title = ''Order Status Updated'',
                              n_entityType = ''Order'', n_entityId = orderId\<rparr>
                      else s);
                   b =
                     (if su_role u = EMPLOYEE
                      then notifyAdmins e a ''ORDER_STATUS_CHANGED'' ''Order Status Updated''
                             ''Order'' orderId
                      else a)
               in if data ''status'' = Some (JStr ''DISPATCHED'')
                  then createNotification e b
                         \<lparr>n_userId = order ''assignedTo'', n_type = ''ORDER_DISPATCHED'',
                          n_title = ''Order Dispatched'',
                          n_entityType = ''Order'', n_entityId = orderId\<rparr>
                  else b
             else s)
      in if paymentIncrease existingOrder data \<and> order ''assignedTo'' \<noteq> Some (JStr (su_id u))
         then createNotification e s'
                \<lparr>n_userId = order ''assignedTo'', n_type = ''PAYMENT_RECEIVED'',
                 n_title = ''Payment Received'',
                 n_entityType = ''Order'', n_entityId = orderId\<rparr>
         else s')"

text \<open>The handler from the point where the body has been validated.\<close>

definition orders_PATCH_apply ::
  "env \<Rightarrow> store \<Rightarrow> request \<Rightarrow> session_user \<Rightarrow> row \<Rightarrow> row \<Rightarrow> response \<times> store" where
  "orders_PATCH_apply e s1 req u existingOrder data =
     (let updateData = dispatchData e u existingOrder data;
          s2 = recordPayment u (paramId req) existingOrder data s1
      in if hasInvalidDate updateData then (catch_zod PrismaError, s2)
         else
           (let order = existingOrder ++ updateData;
                s3 = s2\<lparr>orders := row_update (orders s2) (paramId req) updateData\<rparr>
            in (case createAuditLog e s3
                    \<lparr>al_userId = su_id u, al_action = ''UPDATE'',
                     al_entityType = ''Order'', al_entityId = paramId req,
                     al_changes = OldNew existingOrder order,
                     al_ipAddress = clientIp req, al_userAgent = agent req\<rparr> of
                  Inl err \<Rightarrow> (catch_zod err, s3)
                | Inr s4 \<Rightarrow>
                    (\<lparr>status = 200, payload = Entity order\<rparr>,
                     orderUpdated_notify e u (paramId req) existingOrder data order s4))))"

definition orders_PATCH :: "env \<Rightarrow> store \<Rightarrow> request \<Rightarrow> response \<times> store" where
  "orders_PATCH e s req =
     (case sessionUser req of
        None \<Rightarrow> (unauthorized, s)
      | Some u \<Rightarrow>
          (let (ok, s1) = rateLimitIp e s req in
           if \<not> ok then (tooManyRequests, s1)
           else
             (case row_findUnique (orders s1) ''id'' (paramId req) of
                None \<Rightarrow> (notFound ''Order'', s1)
              | Some existingOrder \<Rightarrow>
                  if su_role u = EMPLOYEE \<and>
                     existingOrder ''assignedTo'' \<noteq> Some (JStr (su_id u))
                  then (forbidden, s1)
                  else
                    (case jsonBody req of
                       None \<Rightarrow> (catch_zod (Error ''Unexpected end of JSON input''), s1)
                     | Some body \<Rightarrow>
                         (case orderUpdateSchema_parse e body of
                            None \<Rightarrow> (catch_zod ZodError, s1)
                          | Some data \<Rightarrow>
                              orders_PATCH_apply e s1 req u existingOrder data)))))"

section \<open>Lead listing (GET /api/leads)\<close>

datatype statusFilter = Equals string | IsNot string

text \<open>
  The \<open>where\<close> object: a field is \<open>None\<close> when the handler does not set it. A date
  bound is \<open>Some None\<close> when \<open>new Date(...)\<close> gave an invalid date.
\<close>

record leadWhere =
  w_assignedTo :: "string option"
  w_status :: "statusFilter option"
  w_priority :: "string option"
  w_source :: "string option"
  w_gte :: "int option option"
  w_lte :: "int option option"
  w_search :: "string option"

text \<open>\<open>searchParams.get(k)\<close> as a condition: \<open>null\<close> and the empty string are falsy.\<close>

definition param :: "request \<Rightarrow> string \<Rightarrow> string option" where
  "param req k =
     (case searchParams req k of
        None \<Rightarrow> None
      | Some v \<Rightarrow> if v = [] then None else Some v)"

text \<open>\<open>parseInt(searchParams.get(k) || dflt)\<close>\<close>

definition intParam :: "env \<Rightarrow> request \<Rightarrow> string \<Rightarrow> string \<Rightarrow> int option" where
  "intParam e req k dflt = parseInt e (case param req k of None \<Rightarrow> dflt | Some v \<Rightarrow> v)"

text \<open>The \<open>where\<close> object of \<open>src/app/api/leads/route.ts\<close>.\<close>

definition leads_where :: "env \<Rightarrow> session_user \<Rightarrow> request \<Rightarrow> leadWhere" where
  "leads_where e u req =
     \<lparr>w_assignedTo = (if su_role u = EMPLOYEE then Some (su_id u) else None),
      w_status = map_option Equals (param req ''status''),
      w_priority = param req ''priority'',
      w_source = param req ''source'',
      w_gte = map_option (parseDate e) (param req ''startDate''),
      w_lte = map_option (parseDate e) (param req ''endDate''),
      w_search = param req ''search''\<rparr>"

text \<open>
  The \<open>where\<close> object of the other copy of the route (\<open>src/unnamed/part_007\<close>), whose
  \<open>else\<close> branch reads "Exclude CONVERTED status by default since they are now orders".
\<close>

definition leads_where_part_007 :: "env \<Rightarrow> session_user \<Rightarrow> request \<Rightarrow> leadWhere" where
  "leads_where_part_007 e u req =
     (leads_where e u req)
       \<lparr>w_status := (case param req ''status'' of
                       Some st \<Rightarrow> Some (Equals st)
                     | None \<Rightarrow> Some (IsNot ''CONVERTED''))\<rparr>"

fun withinBound :: "(int \<Rightarrow> int \<Rightarrow> bool) \<Rightarrow> int option option \<Rightarrow> json option \<Rightarrow> bool" where
  "withinBound cmp None v = True"
| "withinBound cmp (Some (Some t)) (Some (JDate (Some c))) = cmp t c"
| "withinBound cmp b v = False"

fun columnContains :: "(string \<Rightarrow> string \<Rightarrow> bool) \<Rightarrow> string \<Rightarrow> json option \<Rightarrow> bool" where
  "columnContains like q (Some (JStr v)) = like q v"
| "columnContains like q v = False"

definition lead_matches :: "env \<Rightarrow> leadWhere \<Rightarrow> row \<Rightarrow> bool" where
  "lead_matches e w l =
     ((case w_assignedTo w of None \<Rightarrow> True | Some a \<Rightarrow> l ''assignedTo'' = Some (JStr a)) \<and>
      (case w_status w of
         None \<Rightarrow> True
       | Some (Equals st) \<Rightarrow> l ''status'' = Some (JStr st)
       | Some (IsNot st) \<Rightarrow> isString (l ''status'') \<and> l ''status'' \<noteq> Some (JStr st)) \<and>
      (case w_priority w of None \<Rightarrow> True | Some pr \<Rightarrow> l ''priority'' = Some (JStr pr)) \<and>
      (case w_source w of None \<Rightarrow> True | Some so \<Rightarrow> l ''source'' = Some (JStr so)) \<and>
      withinBound (\<le>) (w_gte w) (l ''createdAt'') \<and>
      withinBound (\<ge>) (w_lte w) (l ''createdAt'') \<and>
      (case w_search w of
         None \<Rightarrow> True
       | Some q \<Rightarrow> list_ex (\<lambda>k. columnContains (dbContains e) q (l k))
                     [''name'', ''phone'', ''email'', ''disease'']))"

text \<open>
  The query is refused by the store's client (and the handler answers 500) when a
  filter names a value outside the column's enumeration or a date bound is invalid.
\<close>

definition leadWhere_invalid :: "leadWhere \<Rightarrow> bool" where
  "leadWhere_invalid w =
     ((case w_status w of
         None \<Rightarrow> False
       | Some (Equals st) \<Rightarrow> st \<notin> set [''NEW'', ''CONTACTED'', ''QUALIFIED'', ''CONVERTED'', ''LOST'']
       | Some (IsNot st) \<Rightarrow> st \<notin> set [''NEW'', ''CONTACTED'', ''QUALIFIED'', ''CONVERTED'', ''LOST'']) \<or>
      (case w_priority w of
         None \<Rightarrow> False
       | Some pr \<Rightarrow> pr \<notin> set [''LOW'', ''MEDIUM'', ''HIGH'', ''URGENT'']) \<or>
      (case w_source w of
         None \<Rightarrow> False
       | Some so \<Rightarrow> so \<notin> set [''WHATSAPP'', ''SOCIAL_MEDIA'', ''WEBSITE'', ''REFERRAL'',
                               ''PHONE_CALL'', ''OTHER'']) \<or>
      w_gte w = Some None \<or> w_lte w = Some None)"

definition createdAtOf :: "row \<Rightarrow> int" where
  "createdAtOf r = (case r ''createdAt'' of Some (JDate (Some t)) \<Rightarrow> t | uu \<Rightarrow> 0)"

text \<open>\<open>orderBy: { createdAt: 'desc' }\<close>\<close>

definition newestFirst :: "row list \<Rightarrow> row list" where
  "newestFirst rows = rev (sort_key createdAtOf rows)"

text \<open>
  \<open>skip\<close> and \<open>take\<close>: a negative \<open>skip\<close> is refused, a negative \<open>take\<close> counts from the
  end of the list.
\<close>

definition skipTake :: "int \<Rightarrow> int \<Rightarrow> row list \<Rightarrow> row list option" where
  "skipTake sk tk rows =
     (if sk < 0 then None
      else if 0 \<le> tk then Some (take (nat tk) (drop (nat sk) rows))
      else Some (rev (take (nat (- tk)) (drop (nat sk) (rev rows)))))"

text \<open>\<open>Math.ceil(total / limit)\<close>; Infinity and NaN are serialised as \<open>null\<close>.\<close>

definition totalPages :: "nat \<Rightarrow> int \<Rightarrow> int option" where
  "totalPages n limit =
     (if limit = 0 then None else Some (- ((- int n) div limit)))"

text \<open>The handler, for either \<open>where\<close> object.\<close>

definition leads_listing ::
  "(env \<Rightarrow> session_user \<Rightarrow> request \<Rightarrow> leadWhere) \<Rightarrow> env \<Rightarrow> store \<Rightarrow> request \<Rightarrow> response \<times> store" where
  "leads_listing mkWhere e s req =
     (case sessionUser req of
        None \<Rightarrow> (unauthorized, s)
      | Some u \<Rightarrow>
          (let (ok, s1) = rateLimitIp e s req in
           if \<not> ok then (tooManyRequests, s1)
           else
             (case (intParam e req ''page'' ''1'', intParam e req ''limit'' ''20'') of
                (Some page, Some limit) \<Rightarrow>
                  (let wh = mkWhere e u req;
                       matching = filter (lead_matches e wh) (leads s1)
                   in if leadWhere_invalid wh then (internalError, s1)
                      else
                        (case skipTake ((page - 1) * limit) limit (newestFirst matching) of
                           None \<Rightarrow> (internalError, s1)
                         | Some data \<Rightarrow>
                             (\<lparr>status = 200,
                               payload = Listing data
                                 \<lparr>pg_page = page, pg_limit = limit,
                                  pg_total = length matching,
                                  pg_totalPages = totalPages (length matching) limit\<rparr>\<rparr>,
                              s1)))
              | uu \<Rightarrow> (internalError, s1))))"

definition leads_GET :: "env \<Rightarrow> store \<Rightarrow> request \<Rightarrow> response \<times> store" where
  "leads_GET = leads_listing leads_where"

definition leads_GET_part_007 :: "env \<Rightarrow> store \<Rightarrow> request \<Rightarrow> response \<times> store" where
  "leads_GET_part_007 = leads_listing leads_where_part_007"

section \<open>Lead update (PATCH /api/leads/[id])\<close>

definition leadSchema_ok :: "env \<Rightarrow> row \<Rightarrow> bool" where
  "leadSchema_ok e body =
     (optStringOrNull (body ''name'') \<and>
      optStringOrNull (body ''fatherName'') \<and>
      optEnumOrEmptyOrNull [''MALE'', ''FEMALE'', ''OTHER''] (body ''gender'') \<and>
      optPositiveInt (body ''age'') \<and>
      optEmail (isEmail e) (body ''email'') \<and>
      optNumberMin0 (body ''vppAmount'') \<and>
      optEnum [''WHATSAPP'', ''SOCIAL_MEDIA'', ''WEBSITE'', ''REFERRAL'', ''PHONE_CALL'',
               ''OTHER''] (body ''source'') \<and>
      optEnum [''NEW'', ''CONTACTED'', ''QUALIFIED'', ''CONVERTED'', ''LOST''] (body ''status'') \<and>
      optEnum [''LOW'', ''MEDIUM'', ''HIGH'', ''URGENT''] (body ''priority'') \<and>
      list_all (\<lambda>k. optString (body k))
        [''phone'', ''alternatePhone'', ''disease'', ''duration'', ''patientHistory'',
         ''addressLine1'', ''addressLine2'', ''addressLine3'', ''addressLine4'',
         ''addressLine5'', ''addressLine6'', ''pincodeId'', ''cityId'', ''state'',
         ''country'', ''preferredLanguage'', ''preferredCommunication'', ''notes'',
         ''assignedTo''])"

text \<open>
  \<open>addField(key, body[key], transform)\<close>: nothing when the key is not in the body or the
  transformed value is \<open>undefined\<close>; \<open>null\<close> for the empty string and for \<open>null\<close>.
\<close>

definition addField :: "row \<Rightarrow> string \<Rightarrow> (json \<Rightarrow> json option) \<Rightarrow> row \<Rightarrow> row" where
  "addField body key transform updateData =
     (case body key of
        None \<Rightarrow> updateData
      | Some v \<Rightarrow>
          (case transform v of
             None \<Rightarrow> updateData
           | Some tv \<Rightarrow>
               if tv = JStr [] \<or> tv = JNull then updateData(key \<mapsto> JNull)
               else updateData(key \<mapsto> tv)))"

text \<open>
  \<open>(val) => val !== undefined && val !== null ? Number(val) : undefined\<close>; the schema
  admits only numbers under these keys, and \<open>Number\<close> reads a number as the double it is.
\<close>

definition numberField :: "json \<Rightarrow> json option" where
  "numberField v = (if v = JNull then None else map_option JNum (Number (Some v)))"

text \<open>
  The blocks for \<open>pincodeId\<close> and \<open>cityId\<close>: \<open>null\<close> for the empty string, \<open>null\<close>,
  the string \<open>'null'\<close> and anything \<open>parseInt\<close> cannot read, the parsed number otherwise.
  The schema admits only strings under these keys.
\<close>

definition idField :: "env \<Rightarrow> row \<Rightarrow> string \<Rightarrow> row \<Rightarrow> row" where
  "idField e body key updateData =
     (case body key of
        None \<Rightarrow> updateData
      | Some (JStr str) \<Rightarrow>
          if str = [] \<or> str = ''null'' then updateData(key \<mapsto> JNull)
          else (case parseInt e str of
                  None \<Rightarrow> updateData(key \<mapsto> JNull)
                | Some n \<Rightarrow> updateData(key \<mapsto> JNum (of_int n)))
      | Some v \<Rightarrow> updateData(key \<mapsto> JNull))"

text \<open>\<open>if (key in body) updateData[key] = body[key]\<close>\<close>

definition plainField :: "row \<Rightarrow> string \<Rightarrow> row \<Rightarrow> row" where
  "plainField body key updateData =
     (case body key of
        None \<Rightarrow> updateData
      | Some v \<Rightarrow> updateData(key \<mapsto> v))"

definition addFields :: "row \<Rightarrow> string list \<Rightarrow> row \<Rightarrow> row" where
  "addFields body keys updateData = foldl (\<lambda>upd k. addField body k Some upd) updateData keys"

text \<open>The update object, built key by key in the handler's order.\<close>

definition lead_updateData :: "env \<Rightarrow> row \<Rightarrow> row" where
  "lead_updateData e body =
     (let u1 = addFields body [''name'', ''fatherName'', ''gender''] Map.empty;
          u2 = addField body ''age'' numberField u1;
          u3 = addFields body
                 [''phone'', ''email'', ''alternatePhone'', ''disease'', ''duration'',
                  ''patientHistory''] u2;
          u4 = addField body ''vppAmount'' numberField u3;
          u5 = addFields body
                 [''addressLine1'', ''addressLine2'', ''addressLine3'', ''addressLine4'',
                  ''addressLine5'', ''addressLine6''] u4;
          u6 = idField e body ''pincodeId'' u5;
          u7 = idField e body ''cityId'' u6;
          u8 = addFields body
                 [''state'', ''country'', ''preferredLanguage'', ''preferredCommunication''] u7;
          u9 = plainField body ''source'' u8;
          u10 = plainField body ''status'' u9;
          u11 = plainField body ''priority'' u10;
          u12 = addField body ''notes'' Some u11
      in plainField body ''assignedTo'' u12)"

text \<open>"Employees cannot reassign leads": the key is deleted from the body.\<close>

definition stripAssignedTo :: "session_user \<Rightarrow> row \<Rightarrow> row" where
  "stripAssignedTo u body =
     (if su_role u = EMPLOYEE \<and> ''assignedTo'' \<in> dom body
      then body(''assignedTo'' := None)
      else body)"

text \<open>The notification blocks that end the handler.\<close>

definition leadUpdated_notify ::
  "env \<Rightarrow> session_user \<Rightarrow> string \<Rightarrow> user option \<Rightarrow> row \<Rightarrow> row \<Rightarrow> row \<Rightarrow> store \<Rightarrow> store" where
  "leadUpdated_notify e u leadId currentUser existingLead updateData lead s =
     (let s' =
            (if truthy (updateData ''assignedTo'') \<and>
                updateData ''assignedTo'' \<noteq> existingLead ''assignedTo''
             then createNotification e s
                    \<lparr>n_userId = updateData ''assignedTo'', n_type = ''LEAD_ASSIGNED'',
                     n_title = ''New Lead Assigned'',
                     n_entityType = ''Lead'', n_entityId = leadId\<rparr>
             else s)
      in if truthy (updateData ''status'') \<and> updateData ''status'' \<noteq> existingLead ''status''
         then
           let a =
                 (if map_option u_role currentUser = Some ADMIN \<and>
                     lead ''assignedTo'' \<noteq> Some (JStr (su_id u))
                  then createNotification e s'
                         \<lparr>n_userId = lead ''assignedTo'', n_type = ''LEAD_STATUS_CHANGED'',
                          n_title = ''Lead Status Updated'',
                          n_entityType = ''Lead'', n_entityId = leadId\<rparr>
                  else s')
           in if map_option u_role currentUser = Some EMPLOYEE
              then notifyAdmins e a ''LEAD_STATUS_CHANGED'' ''Lead Status Updated'' ''Lead'' leadId
              else a
         else s')"

text \<open>The handler from the point where the body has been validated.\<close>

definition leads_PATCH_apply ::
  "env \<Rightarrow> store \<Rightarrow> request \<Rightarrow> session_user \<Rightarrow> row \<Rightarrow> row \<Rightarrow> response \<times> store" where
  "leads_PATCH_apply e s1 req u existingLead body0 =
     (let body = stripAssignedTo u body0;
          currentUser = user_findUnique s1 (su_id u);
          updateData = lead_updateData e body;
          lead = existingLead ++ updateData;
          s2 = s1\<lparr>leads := row_update (leads s1) (paramId req) updateData\<rparr>
      in (case createAuditLog e s2
               \<lparr>al_userId = su_id u, al_action = ''UPDATE'',
                al_entityType = ''Lead'', al_entityId = paramId req,
                al_changes = OldNewFields existingLead lead updateData,
                al_ipAddress = clientIp req, al_userAgent = agent req\<rparr> of
            Inl err \<Rightarrow> (catch_zod err, s2)
          | Inr s3 \<Rightarrow>
              (\<lparr>status = 200, payload = Entity lead\<rparr>,
               leadUpdated_notify e u (paramId req) currentUser existingLead updateData lead
                 s3)))"

definition leads_PATCH :: "env \<Rightarrow> store \<Rightarrow> request \<Rightarrow> response \<times> store" where
  "leads_PATCH e s req =
     (case sessionUser req of
        None \<Rightarrow> (unauthorized, s)
      | Some u \<Rightarrow>
          (let (ok, s1) = rateLimitIp e s req in
           if \<not> ok then (tooManyRequests, s1)
           else
             (case row_findUnique (leads s1) ''id'' (paramId req) of
                None \<Rightarrow> (notFound ''Lead'', s1)
              | Some existingLead \<Rightarrow>
                  if su_role u = EMPLOYEE \<and>
                     existingLead ''assignedTo'' \<noteq> Some (JStr (su_id u))
                  then (forbidden, s1)
                  else
                    (case jsonBody req of
                       None \<Rightarrow> (catch_zod (Error ''Unexpected end of JSON input''), s1)
                     | Some body0 \<Rightarrow>
                         if \<not> leadSchema_ok e body0 then (badRequest, s1)
                         else leads_PATCH_apply e s1 req u existingLead body0))))"

section \<open>Example data\<close>

text \<open>
  A small store and environment on which the statements below are evaluated: an
  administrator, an employee without role assignments, an employee whose assigned role
  grants \<open>leads\<close>/\<open>update\<close>, two leads of the first employee (one already
  converted), and the order made from the converted lead.
\<close>

definition emptyStore :: store where
  "emptyStore = \<lparr>users = [], leads = [], orders = [], payments = [], auditLogs = [],
                 notifications = [], rateLimits = Map.empty\<rparr>"

definition env0 :: env where
  "env0 = \<lparr>dateNow = 1700000000123,
           auditCreateFails = (\<lambda>a. False),
           notificationCreateFails = (\<lambda>n. False),
           newOrderId = ''o2'',
           draws = [(1700000000123, 7), (1700000000123, 8)],
           parseDate = (\<lambda>str. None),
           parseInt = (\<lambda>str. if str = ''1'' then Some 1
                              else if str = ''20'' then Some 20 else None),
           isEmail = (\<lambda>str. True),
           dbContains = (\<lambda>q v. False)\<rparr>"

definition admin1 :: user where
  "admin1 = \<lparr>u_id = ''a1'', u_role = ADMIN, u_isActive = True, u_roleAssignments = []\<rparr>"

definition employee1 :: user where
  "employee1 = \<lparr>u_id = ''e1'', u_role = EMPLOYEE, u_isActive = True, u_roleAssignments = []\<rparr>"

definition employee2 :: user where
  "employee2 =
     \<lparr>u_id = ''e2'', u_role = EMPLOYEE, u_isActive = True,
      u_roleAssignments =
        [\<lparr>ra_role = \<lparr>role_permissions =
           [\<lparr>rp_permission = \<lparr>perm_module = ''leads'', perm_action = ''update''\<rparr>\<rparr>]\<rparr>\<rparr>]\<rparr>"

definition lead1 :: row where
  "lead1 = [''id'' \<mapsto> JStr ''l1'', ''name'' \<mapsto> JStr ''A'',
            ''phone'' \<mapsto> JStr ''9990001111'', ''status'' \<mapsto> JStr ''NEW'',
            ''assignedTo'' \<mapsto> JStr ''e1'', ''createdAt'' \<mapsto> JDate (Some 1)]"

definition lead2 :: row where
  "lead2 = [''id'' \<mapsto> JStr ''l2'', ''name'' \<mapsto> JStr ''B'',
            ''phone'' \<mapsto> JStr ''9990002222'', ''status'' \<mapsto> JStr ''CONVERTED'',
            ''assignedTo'' \<mapsto> JStr ''e1'', ''createdAt'' \<mapsto> JDate (Some 2)]"

definition order1 :: row where
  "order1 = [''id'' \<mapsto> JStr ''o1'', ''orderNumber'' \<mapsto> JStr ''G000123007'',
             ''leadId'' \<mapsto> JStr ''l2'', ''patientName'' \<mapsto> JStr ''B'',
             ''status'' \<mapsto> JStr ''PENDING'', ''assignedTo'' \<mapsto> JStr ''e1'',
             ''receivedAmount'' \<mapsto> JNum 2000, ''totalAmount'' \<mapsto> JNum 5000]"

definition store0 :: store where
  "store0 = \<lparr>users = [admin1, employee1, employee2], leads = [lead1, lead2],
             orders = [order1], payments = [], auditLogs = [], notifications = [],
             rateLimits = Map.empty\<rparr>"

text \<open>A request of the given session user, for the route parameter and body given.\<close>

definition request_by :: "string \<Rightarrow> userRole \<Rightarrow> string \<Rightarrow> row \<Rightarrow> request" where
  "request_by uid r i body =
     \<lparr>session = Some \<lparr>su_id = uid, su_role = r\<rparr>, forwardedFor = Some ''10.0.0.1'',
      userAgent = None, jsonBody = Some body, paramId = i, searchParams = Map.empty\<rparr>"

definition bulkBody :: row where
  "bulkBody = [''leadIds'' \<mapsto> JArr [JStr ''l1''], ''assignedTo'' \<mapsto> JStr ''e2'']"

text \<open>A store with the audit-log table left out of the comparison.\<close>

definition sansAudit :: "store \<Rightarrow> store" where
  "sansAudit s = s\<lparr>auditLogs := []\<rparr>"

text \<open>Bodies of order updates: a lower and a higher received amount.\<close>

definition lowerBody :: row where
  "lowerBody = [''receivedAmount'' \<mapsto> JNum 1000]"

definition raiseBody :: row where
  "raiseBody = [''receivedAmount'' \<mapsto> JNum 3500]"

definition centsBody :: row where
  "centsBody = [''receivedAmount'' \<mapsto> JNum (20003 / 10)]"

text \<open>An environment whose audit-log table refuses every write, and an entry.\<close>

definition envAuditDown :: env where
  "envAuditDown = env0\<lparr>auditCreateFails := (\<lambda>a. True)\<rparr>"

definition entry0 :: auditLog where
  "entry0 = \<lparr>al_userId = ''e1'', al_action = ''UPDATE'', al_entityType = ''Order'',
             al_entityId = ''o1'', al_changes = OldNew order1 order1,
             al_ipAddress = ''10.0.0.1'', al_userAgent = None\<rparr>"

text \<open>A lead update that sets the status and names another assignee.\<close>

definition reassignBody :: row where
  "reassignBody = [''status'' \<mapsto> JStr ''CONTACTED'', ''assignedTo'' \<mapsto> JStr ''e2'']"

text \<open>
  Two conversion requests (the first is the one of the specification's example
  scenario), and the environment of the second: the same millisecond on the clock, and
  a first draw that repeats the number just given out.
\<close>

definition convertBody :: row where
  "convertBody = [''leadId'' \<mapsto> JStr ''l1'', ''receivedAmount'' \<mapsto> JNum 2000,
                  ''paymentStatus'' \<mapsto> JStr ''PARTIAL'', ''totalAmount'' \<mapsto> JNum 5000,
                  ''vppAmount'' \<mapsto> JNum 5000]"

definition env1 :: env where
  "env1 = env0\<lparr>newOrderId := ''o3'',
                draws := [(1700000000123, 8), (1700000000123, 9)]\<rparr>"

definition convertBody2 :: row where
  "convertBody2 = [''leadId'' \<mapsto> JStr ''l2'', ''receivedAmount'' \<mapsto> JNum 0,
                   ''paymentStatus'' \<mapsto> JStr ''PENDING'', ''totalAmount'' \<mapsto> JNum 3000,
                   ''vppAmount'' \<mapsto> JNum 3000]"

text \<open>The first employee lists its leads, with no query parameters.\<close>

definition listRequest :: request where
  "listRequest = \<lparr>session = Some \<lparr>su_id = ''e1'', su_role = EMPLOYEE\<rparr>,
                  forwardedFor = Some ''10.0.0.1'', userAgent = None, jsonBody = None,
                  paramId = [], searchParams = Map.empty\<rparr>"

section \<open>Doubles: properties\<close>

lemma binary64_zero [simp]: "binary64 0 = 0"
  by (simp add: binary64_def)

lemma roundHalfEven_nonneg: "0 \<le> x \<Longrightarrow> 0 \<le> roundHalfEven x"
  by (simp add: roundHalfEven_def Let_def)

lemma scaleUp_pos: "0 < x \<Longrightarrow> 0 < snd (scaleUp e x)"
proof (induction e x rule: scaleUp.induct)
  case (1 e x)
  show ?case
  proof (cases "x < 1 \<and> - 1022 < e")
    case True
    then have "0 < snd (scaleUp (e - 1) (2 * x))"
      using 1 by simp
    then show ?thesis
      using True by (subst scaleUp.simps) simp
  next
    case False
    then show ?thesis
      using 1(2) by (subst scaleUp.simps) auto
  qed
qed

lemma scaleDown_pos: "0 < x \<Longrightarrow> 0 < snd (scaleDown e x)"
proof (induction e x rule: scaleDown.induct)
  case (1 e x)
  show ?case
  proof (cases "2 \<le> x")
    case True
    then have "0 < snd (scaleDown (e + 1) (x / 2))"
      using 1 by simp
    then show ?thesis
      using True by (subst scaleDown.simps) simp
  next
    case False
    then show ?thesis
      using 1(2) by (subst scaleDown.simps) auto
  qed
qed

lemma nearest_nonneg: "0 < x \<Longrightarrow> 0 \<le> nearest x"
proof -
  assume x: "0 < x"
  obtain e m where em: "(if x < 1 then scaleUp 0 x else scaleDown 0 x) = (e, m)"
    by (cases "if x < 1 then scaleUp 0 x else scaleDown 0 x")
  have "0 < m"
    using em scaleUp_pos [OF x, of 0] scaleDown_pos [OF x, of 0] by (auto split: if_splits)
  then have "0 \<le> roundHalfEven (m * 2 ^ 52)"
    by (intro roundHalfEven_nonneg) simp
  moreover have "(0::rat) < 2 powi (e - 52)"
    by simp
  ultimately show ?thesis
    by (simp add: nearest_def em)
qed

lemma binary64_nonneg: "0 \<le> x \<Longrightarrow> 0 \<le> binary64 x"
  using nearest_nonneg [of x] by (auto simp: binary64_def)

text \<open>A double is rounded to itself.\<close>

lemma roundHalfEven_of_int [simp]: "roundHalfEven (of_int n) = n"
  by (simp add: roundHalfEven_def)

lemma roundHalfEven_lower: "of_int a \<le> x \<Longrightarrow> a \<le> roundHalfEven x"
proof -
  assume "of_int a \<le> x"
  then have "a \<le> \<lfloor>x\<rfloor>" by (simp add: le_floor_iff)
  then show ?thesis by (simp add: roundHalfEven_def Let_def)
qed

lemma roundHalfEven_upper: "x \<le> of_int b \<Longrightarrow> roundHalfEven x \<le> b"
proof (cases "x = of_int b")
  case True
  then show ?thesis by simp
next
  case False
  assume "x \<le> of_int b"
  with False have "x < of_int b" by simp
  then have "\<lfloor>x\<rfloor> < b" by (simp add: floor_less_iff)
  then show ?thesis by (simp add: roundHalfEven_def Let_def)
qed

lemma scaleUp_normal:
  "1 \<le> m \<Longrightarrow> m < 2 \<Longrightarrow> - 1022 \<le> e \<Longrightarrow> scaleUp (e + int k) (m / 2 ^ k) = (e, m)"
proof (induction k)
  case 0
  then show ?case by (subst scaleUp.simps) simp
next
  case (Suc k)
  have "(1::rat) \<le> 2 ^ k" by simp
  then have "m < 2 * 2 ^ k" using Suc.prems(2) by linarith
  then have small: "m / 2 ^ Suc k < 1"
    by (simp add: divide_less_eq)
  have "scaleUp (e + int (Suc k)) (m / 2 ^ Suc k) = scaleUp (e + int k) (m / 2 ^ k)"
    using small Suc.prems(3) by (subst scaleUp.simps) (simp add: add.commute)
  then show ?case using Suc by simp
qed

lemma scaleUp_subnormal:
  "m < 1 \<Longrightarrow> scaleUp (- 1022 + int k) (m / 2 ^ k) = (- 1022, m)"
proof (induction k)
  case 0
  then show ?case by (subst scaleUp.simps) simp
next
  case (Suc k)
  have "(1::rat) \<le> 2 ^ k" by simp
  then have "m < 2 * 2 ^ k" using Suc.prems by linarith
  then have small: "m / 2 ^ Suc k < 1"
    by (simp add: divide_less_eq)
  have "scaleUp (- 1022 + int (Suc k)) (m / 2 ^ Suc k) = scaleUp (- 1022 + int k) (m / 2 ^ k)"
    using small by (subst scaleUp.simps) (simp add: add.commute)
  then show ?case using Suc by simp
qed

lemma scaleDown_normal:
  "1 \<le> m \<Longrightarrow> m < 2 \<Longrightarrow> scaleDown e (m * 2 ^ k) = (e + int k, m)"
proof (induction k arbitrary: e)
  case 0
  then show ?case by (subst scaleDown.simps) simp
next
  case (Suc k)
  have "(1::rat) \<le> 2 ^ k" by simp
  with Suc.prems(1) have "1 * 1 \<le> m * 2 ^ k"
    by (intro mult_mono) simp_all
  then have big: "2 \<le> m * 2 ^ Suc k"
    by simp
  have "scaleDown e (m * 2 ^ Suc k) = scaleDown (e + 1) (m * 2 ^ k)"
    using big by (subst scaleDown.simps) simp
  then show ?case using Suc.IH [of "e + 1"] Suc.prems by simp
qed


lemma scaleUp_result:
  "- 1022 \<le> e0 \<Longrightarrow> 0 < x \<Longrightarrow> x < 2 \<Longrightarrow> scaleUp e0 x = (e, m) \<Longrightarrow>
     - 1022 \<le> e \<and> 0 < m \<and> m < 2 \<and> (1 \<le> m \<or> e = - 1022)"
proof (induction e0 x rule: scaleUp.induct)
  case (1 e0 x)
  show ?case
  proof (cases "x < 1 \<and> - 1022 < e0")
    case True
    then have "scaleUp (e0 - 1) (2 * x) = (e, m)"
      using "1.prems"(4) by (subst (asm) scaleUp.simps) simp
    then show ?thesis
      using True "1.prems"(2) by (intro "1.IH") simp_all
  next
    case False
    then have "scaleUp e0 x = (e0, x)"
      by (subst scaleUp.simps) auto
    then have "(e, m) = (e0, x)"
      using "1.prems"(4) by simp
    then show ?thesis
      using False "1.prems"(1,2,3) by auto
  qed
qed

lemma scaleDown_result:
  "1 \<le> x \<Longrightarrow> scaleDown e0 x = (e, m) \<Longrightarrow> e0 \<le> e \<and> 1 \<le> m \<and> m < 2"
proof (induction e0 x rule: scaleDown.induct)
  case (1 e0 x)
  show ?case
  proof (cases "2 \<le> x")
    case True
    then have "scaleDown (e0 + 1) (x / 2) = (e, m)"
      using "1.prems"(2) by (subst (asm) scaleDown.simps) simp
    then have "e0 + 1 \<le> e \<and> 1 \<le> m \<and> m < 2"
      using True by (intro "1.IH") simp_all
    then show ?thesis by simp
  next
    case False
    then have "scaleDown e0 x = (e0, x)"
      by (subst scaleDown.simps) simp
    then have "(e, m) = (e0, x)"
      using "1.prems"(2) by simp
    then show ?thesis
      using False "1.prems"(1) by auto
  qed
qed

lemma powi_shift: "x * 2 ^ 52 * 2 powi (e - 52) = x * (2 powi e :: rat)"
  by (simp add: power_int_diff del: power_numeral)

lemma nearest_normal:
  assumes "1 \<le> m" and "m < 2" and "- 1022 \<le> e" and "m * 2 ^ 52 = of_int k"
  shows "nearest (m * 2 powi e) = m * 2 powi e"
proof -
  have scaled: "(if m * 2 powi e < 1 then scaleUp 0 (m * 2 powi e) else scaleDown 0 (m * 2 powi e))
                  = (e, m)"
  proof (cases "e < 0")
    case True
    define j where "j = nat (- e)"
    have e: "e = - int j" and j: "0 < j" using True by (simp_all add: j_def)
    have y: "m * 2 powi e = m / 2 ^ j"
      by (simp add: e power_int_minus field_simps)
    have "(2::rat) \<le> 2 ^ j"
      using j by (metis One_nat_def Suc_leI one_le_numeral power_increasing power_one_right)
    then have "m < 2 ^ j" using assms(2) by linarith
    then have small: "m / 2 ^ j < 1" by (simp add: divide_less_eq)
    have "scaleUp (e + int j) (m / 2 ^ j) = (e, m)"
      using assms(1,2,3) by (rule scaleUp_normal)
    moreover have "e + int j = 0" by (simp add: e)
    ultimately have up: "scaleUp 0 (m / 2 ^ j) = (e, m)" by simp
    show ?thesis
      unfolding y by (simp add: small up)
  next
    case False
    define j where "j = nat e"
    have e: "e = int j" using False by (simp add: j_def)
    have y: "m * 2 powi e = m * 2 ^ j"
      by (simp add: e)
    have "(1::rat) \<le> 2 ^ j" by simp
    with assms(1) have "1 * 1 \<le> m * 2 ^ j"
      by (intro mult_mono) simp_all
    then have big: "\<not> m * 2 ^ j < 1" by simp
    have "scaleDown 0 (m * 2 ^ j) = (0 + int j, m)"
      using assms(1,2) by (rule scaleDown_normal)
    then have down: "scaleDown 0 (m * 2 ^ j) = (e, m)" by (simp add: e)
    show ?thesis
      unfolding y by (simp add: big down)
  qed
  have "nearest (m * 2 powi e) = of_int k * 2 powi (e - 52)"
    by (simp only: nearest_def scaled Let_def case_prod_conv assms(4) roundHalfEven_of_int)
  also have "\<dots> = m * 2 ^ 52 * 2 powi (e - 52)"
    by (simp only: assms(4))
  also have "\<dots> = m * 2 powi e"
    by (rule powi_shift)
  finally show ?thesis .
qed

lemma nearest_subnormal:
  assumes "m < 1" and "m * 2 ^ 52 = of_int k"
  shows "nearest (m * 2 powi (- 1022)) = m * 2 powi (- 1022)"
proof -
  define j :: nat where "j = 1022"
  have e: "(- 1022 :: int) = - int j" by (simp add: j_def)
  have y: "m * 2 powi (- 1022) = m / 2 ^ j"
    unfolding e by (simp add: power_int_minus field_simps)
  have "(1::rat) \<le> 2 ^ j" by simp
  then have "m < 2 ^ j" using assms(1) by linarith
  then have small: "m / 2 ^ j < 1" by (simp add: divide_less_eq)
  have "scaleUp (- 1022 + int j) (m / 2 ^ j) = (- 1022, m)"
    using assms(1) by (rule scaleUp_subnormal)
  moreover have "- 1022 + int j = 0" by (simp add: j_def)
  ultimately have up: "scaleUp 0 (m / 2 ^ j) = (- 1022, m)" by simp
  have scaled: "(if m * 2 powi (- 1022) < 1 then scaleUp 0 (m * 2 powi (- 1022))
                 else scaleDown 0 (m * 2 powi (- 1022))) = (- 1022, m)"
    unfolding y by (simp add: small up)
  have "nearest (m * 2 powi (- 1022)) = of_int k * 2 powi (- 1022 - 52)"
    by (simp only: nearest_def scaled Let_def case_prod_conv assms(2) roundHalfEven_of_int)
  also have "\<dots> = m * 2 ^ 52 * 2 powi (- 1022 - 52)"
    by (simp only: assms(2))
  also have "\<dots> = m * 2 powi (- 1022)"
    by (rule powi_shift)
  finally show ?thesis .
qed


lemma nearest_idem:
  assumes "0 < x"
  shows "nearest x = 0 \<or> (0 < nearest x \<and> nearest (nearest x) = nearest x)"
proof -
  obtain e m where em: "(if x < 1 then scaleUp 0 x else scaleDown 0 x) = (e, m)"
    by (cases "if x < 1 then scaleUp 0 x else scaleDown 0 x")
  have props: "- 1022 \<le> e \<and> 0 < m \<and> m < 2 \<and> (1 \<le> m \<or> e = - 1022)"
  proof (cases "x < 1")
    case True
    then have "scaleUp 0 x = (e, m)" using em by simp
    then show ?thesis
      using assms True by (intro scaleUp_result [of 0 x]) simp_all
  next
    case False
    then have "scaleDown 0 x = (e, m)" using em by simp
    then have "0 \<le> e \<and> 1 \<le> m \<and> m < 2"
      using False by (intro scaleDown_result [of x 0]) simp_all
    then show ?thesis by simp
  qed
  define n where "n = roundHalfEven (m * 2 ^ 52)"
  have val: "nearest x = of_int n * 2 powi (e - 52)"
    by (simp only: nearest_def em Let_def case_prod_conv n_def)
  have pw: "(0::rat) < 2 powi (e - 52)" by simp
  have "of_int 0 \<le> m * 2 ^ 52" using props by simp
  then have n0: "0 \<le> n" unfolding n_def by (rule roundHalfEven_lower)
  have "m * 2 ^ 52 \<le> 2 * 2 ^ 52" using props by simp
  then have "m * 2 ^ 52 \<le> of_int (2 ^ 53)" by simp
  then have n53: "n \<le> 2 ^ 53" unfolding n_def by (rule roundHalfEven_upper)
  have n52: "2 ^ 52 \<le> n" if "1 \<le> m"
  proof -
    have "of_int (2 ^ 52) \<le> m * 2 ^ 52" using that by simp
    then show ?thesis unfolding n_def by (rule roundHalfEven_lower)
  qed
  show ?thesis
  proof (cases "n = 0")
    case True
    then show ?thesis by (simp add: val)
  next
    case False
    then have npos: "0 < n" using n0 by simp
    then have pos: "0 < nearest x"
      using pw by (simp add: val)
    define m' :: rat where "m' = of_int n / 2 ^ 52"
    have m'k: "m' * 2 ^ 52 = of_int n"
      by (simp add: m'_def)
    have form: "nearest x = m' * 2 powi e"
      unfolding val by (simp only: m'k [symmetric] powi_shift)
    have "nearest (nearest x) = nearest x"
    proof (cases "n < 2 ^ 52")
      case True
      then have "\<not> 1 \<le> m" using n52 by auto
      then have e: "e = - 1022" using props by simp
      have "of_int n < (of_int (2 ^ 52) :: rat)" using True by (simp only: of_int_less_iff)
      then have "m' < 1" by (simp add: m'_def divide_less_eq)
      then have "nearest (m' * 2 powi (- 1022)) = m' * 2 powi (- 1022)"
        using m'k by (rule nearest_subnormal)
      then show ?thesis by (simp only: form e)
    next
      case False
      show ?thesis
      proof (cases "n = 2 ^ 53")
        case True
        have "nearest x = of_int (2 ^ 53) * 2 powi (e - 52)"
          by (simp only: val True)
        also have "\<dots> = 1 * 2 ^ 52 * 2 powi ((e + 1) - 52)"
        proof -
          have "(2::rat) powi ((e - 52) + 1) = 2 powi (e - 52) * 2"
            by (rule power_int_add_1) simp
          moreover have "(e + 1) - 52 = (e - 52) + 1" by simp
          ultimately have "(2::rat) powi ((e + 1) - 52) = 2 powi (e - 52) * 2"
            by (simp only:)
          moreover have "(of_int (2 ^ 53) :: rat) = 2 ^ 52 * 2" by simp
          ultimately show ?thesis by (simp only: mult.assoc mult_1 mult.commute [of 2])
        qed
        also have "\<dots> = 1 * 2 powi (e + 1)"
          by (rule powi_shift)
        finally have one: "nearest x = 1 * 2 powi (e + 1)" .
        have "nearest (1 * 2 powi (e + 1)) = 1 * 2 powi (e + 1)"
        proof (rule nearest_normal)
          show "(1::rat) \<le> 1" by simp
          show "(1::rat) < 2" by simp
          show "- 1022 \<le> e + 1" using props by simp
          show "(1::rat) * 2 ^ 52 = of_int (2 ^ 52)" by simp
        qed
        then show ?thesis by (simp only: one)
      next
        case ne: False
        have lo: "(of_int (2 ^ 52) :: rat) \<le> of_int n" using False by simp
        have hi: "of_int n < (of_int (2 ^ 53) :: rat)" using ne n53 by simp
        have "1 \<le> m'" using lo by (simp add: m'_def le_divide_eq)
        moreover have "m' < 2" using hi by (simp add: m'_def divide_less_eq)
        ultimately have "nearest (m' * 2 powi e) = m' * 2 powi e"
          using props m'k by (intro nearest_normal) simp_all
        then show ?thesis by (simp only: form)
      qed
    qed
    then show ?thesis using pos by simp
  qed
qed

lemma binary64_idem: "binary64 (binary64 x) = binary64 x"
proof (cases "x = 0")
  case True
  then show ?thesis by simp
next
  case False
  show ?thesis
  proof (cases "x < 0")
    case True
    then have "nearest (- x) = 0 \<or> (0 < nearest (- x) \<and> nearest (nearest (- x)) = nearest (- x))"
      by (intro nearest_idem) simp
    then show ?thesis
      using True by (auto simp: binary64_def)
  next
    case nonneg: False
    then have "nearest x = 0 \<or> (0 < nearest x \<and> nearest (nearest x) = nearest x)"
      using False by (intro nearest_idem) simp
    then show ?thesis
      using False nonneg by (auto simp: binary64_def)
  qed
qed

lemma floor_rat_numeral:
  "\<lfloor>numeral a / numeral b :: rat\<rfloor> = numeral a div numeral b"
  by (metis floor_divide_of_int_eq of_int_numeral)

lemmas binary64_eval = binary64_def nearest_def scaleUp.simps scaleDown.simps roundHalfEven_def
  Let_def floor_rat_numeral

text \<open>
  Whole amounts are doubles; 0.1, 0.3 and 2000.3 are not, and JavaScript's
  \<open>0.3 - 0.1\<close> is 0.19999999999999998, its \<open>1000.3 - 100.1\<close> is 900.1999999999999 and its
  \<open>2000.3 - 2000\<close> is 0.2999999999999545.
\<close>

lemma binary64_whole:
  "binary64 1000 = 1000" "binary64 1500 = 1500" "binary64 2000 = 2000" "binary64 3500 = 3500"
  by (simp_all add: binary64_eval)

lemma binary64_tenths:
  "binary64 (1 / 10) = 3602879701896397 / 36028797018963968"
  "binary64 (3 / 10) = 5404319552844595 / 18014398509481984"
  "binary64 (binary64 (3 / 10) - binary64 (1 / 10)) = 7205759403792793 / 36028797018963968"
  "binary64 (binary64 (10003 / 10) - binary64 (1001 / 10)) = 7918242938591641 / 8796093022208"
  by (simp_all add: binary64_eval)

lemma binary64_cents:
  "binary64 (20003 / 10) = 8797412436161331 / 4398046511104"
  "binary64 (binary64 (20003 / 10) - binary64 2000) = 1319413953331 / 4398046511104"
  "binary64 (1319413953331 / 4398046511104) = 1319413953331 / 4398046511104"
  by (simp_all add: binary64_eval)

section \<open>Rate limiter: properties\<close>





text \<open>
  The periodic sweep is invisible to callers: it deletes only entries that the next
  call would replace anyway.
\<close>

lemma rateLimit_sweep:
  "fst (rateLimit (sweep m now) now ip limit w) = fst (rateLimit m now ip limit w)"
  "snd (rateLimit (sweep m now) now ip limit w) ip = snd (rateLimit m now ip limit w) ip"
  by (simp_all add: rateLimit_def sweep_def split: option.splits)







text \<open>
  A limit below 1 is outside the last part: the first request of a window is allowed
  without a look at the limit.
\<close>

lemma rateLimit_limit_zero:
  "fst (rateLimit_run Map.empty ''10.0.0.1'' 0 default_windowMs [1000]) = [True]"
  by (simp add: rateLimit_def)

section \<open>Permission checker: properties\<close>

lemma hasPermission_rateLimits [simp]:
  "hasPermission (s\<lparr>rateLimits := m\<rparr>) = hasPermission s"
  by (simp add: fun_eq_iff hasPermission_def user_findUnique_def)

lemma rateLimitIp_frame:
  "rateLimitIp e s req = (ok, s1) \<Longrightarrow> s1 = s\<lparr>rateLimits := rateLimits s1\<rparr>"
  by (auto simp: rateLimitIp_def split: prod.splits)

text \<open>
  C10. When no user has the given id, \<open>hasPermission\<close> answers false for every module
  and action, and \<open>requirePermission\<close> throws the error with the message
  "Insufficient permissions" (and nothing else).
\<close>

theorem hasPermission_unknown_user:
  "user_findUnique s userId = None \<Longrightarrow>
     hasPermission s userId modl action = False \<and>
     requirePermission s userId modl action = Inl (Error ''Insufficient permissions'')"
  by (simp add: hasPermission_def requirePermission_def)

theorem hasPermission_unknown_user_witness:
  "user_findUnique emptyStore ''u1'' = None \<and>
   hasPermission emptyStore ''u1'' ''leads'' ''update'' = False \<and>
   requirePermission emptyStore ''u1'' ''leads'' ''update''
     = Inl (Error ''Insufficient permissions'')"
proof -
  have h: "user_findUnique emptyStore ''u1'' = None"
    by (simp add: user_findUnique_def emptyStore_def)
  show ?thesis
    using h hasPermission_unknown_user [OF h, of "''leads''" "''update''"] by simp
qed

section \<open>Bulk assignment: properties\<close>

lemmas example_data = env0_def admin1_def employee1_def employee2_def lead1_def lead2_def
  order1_def store0_def request_by_def emptyStore_def

lemmas prelude_defs = sessionUser_def rateLimitIp_def rateLimit_def default_limit_def
  default_windowMs_def clientIp_def agent_def

lemma e1_lacks_permission: "\<not> hasPermission store0 ''e1'' ''leads'' ''update''"
  by (simp add: hasPermission_def user_findUnique_def example_data)

text \<open>
  C4 (as amended). The guard of the bulk assignment is the permission
  \<open>leads\<close>/\<open>update\<close>, not the role: when the caller does not hold it (is not an
  administrator in the store and no role assigned to it grants it), the request is
  answered Forbidden (Too many requests when the rate limiter stops it first) and no
  lead changes.
\<close>

theorem bulkAssign_requires_permission:
  assumes "sessionUser req = Some u"
    and "\<not> hasPermission s (su_id u) ''leads'' ''update''"
  shows "leads (snd (bulkAssign_POST e s req)) = leads s \<and>
         fst (bulkAssign_POST e s req)
           = (if fst (rateLimitIp e s req) then forbidden else tooManyRequests)"
proof -
  obtain ok s1 where rl: "rateLimitIp e s req = (ok, s1)"
    by (cases "rateLimitIp e s req")
  have s1: "s1 = s\<lparr>rateLimits := rateLimits s1\<rparr>"
    using rl by (rule rateLimitIp_frame)
  have np: "\<not> hasPermission s1 (su_id u) ''leads'' ''update''"
    using assms(2) by (subst s1) simp
  have l: "leads s1 = leads s" by (subst s1) simp
  show ?thesis
    using assms(1) rl np l
    by (simp add: bulkAssign_POST_def requirePermission_def catch_permission_def)
qed

text \<open>
  An employee whose assigned role grants \<open>leads\<close>/\<open>update\<close> is not an administrator,
  and its bulk assignment succeeds and moves the lead.
\<close>

theorem bulkAssign_employee_counterexample:
  "su_role \<lparr>su_id = ''e2'', su_role = EMPLOYEE\<rparr> \<noteq> ADMIN \<and>
   map_option u_role (user_findUnique store0 ''e2'') = Some EMPLOYEE \<and>
   fst (bulkAssign_POST env0 store0 (request_by ''e2'' EMPLOYEE [] bulkBody))
     = \<lparr>status = 200, payload = SuccessCount 1\<rparr> \<and>
   map (\<lambda>l. l ''assignedTo'') (leads store0) = [Some (JStr ''e1''), Some (JStr ''e1'')] \<and>
   map (\<lambda>l. l ''assignedTo'')
     (leads (snd (bulkAssign_POST env0 store0 (request_by ''e2'' EMPLOYEE [] bulkBody))))
     = [Some (JStr ''e2''), Some (JStr ''e1'')]"
  by (simp add: bulkAssign_POST_def prelude_defs requirePermission_def hasPermission_def
        user_findUnique_def bulkAssignSchema_parse_def lead_updateMany_def idIn_def
        createAuditLog_def auditLog_create_def example_data bulkBody_def)

theorem bulkAssign_requires_permission_witness:
  "sessionUser (request_by ''e1'' EMPLOYEE [] bulkBody) = Some \<lparr>su_id = ''e1'', su_role = EMPLOYEE\<rparr> \<and>
   \<not> hasPermission store0 ''e1'' ''leads'' ''update'' \<and>
   leads (snd (bulkAssign_POST env0 store0 (request_by ''e1'' EMPLOYEE [] bulkBody))) = leads store0 \<and>
   fst (bulkAssign_POST env0 store0 (request_by ''e1'' EMPLOYEE [] bulkBody)) = forbidden"
proof -
  let ?req = "request_by ''e1'' EMPLOYEE [] bulkBody"
  let ?u = "\<lparr>su_id = ''e1'', su_role = EMPLOYEE\<rparr>"
  have a: "sessionUser ?req = Some ?u"
    by (simp add: sessionUser_def request_by_def)
  have b: "\<not> hasPermission store0 (su_id ?u) ''leads'' ''update''"
    using e1_lacks_permission by simp
  have c: "fst (rateLimitIp env0 store0 ?req)"
    by (simp add: prelude_defs example_data)
  show ?thesis
    using a b c bulkAssign_requires_permission [OF a b, of env0] by simp
qed

section \<open>Audit recorder: properties\<close>

lemma createAuditLog_cases:
  "createAuditLog e s a = Inr s \<or> createAuditLog e s a = Inr (s\<lparr>auditLogs := auditLogs s @ [a]\<rparr>)"
  by (simp add: createAuditLog_def auditLog_create_def)

lemma createAuditLog_Inr:
  "\<exists>s'. createAuditLog e s a = Inr s' \<and> (\<exists>x. s' = s\<lparr>auditLogs := x\<rparr>)"
proof -
  have "s = s\<lparr>auditLogs := auditLogs s\<rparr>" by simp
  then show ?thesis
    using createAuditLog_cases [of e s a] by (metis)
qed

lemma createNotification_auditLogs [simp]:
  "createNotification e (s\<lparr>auditLogs := x\<rparr>) n = (createNotification e s n)\<lparr>auditLogs := x\<rparr>"
  by (simp add: createNotification_def notification_create_def)

lemma createNotification_env [simp]:
  "createNotification (e\<lparr>auditCreateFails := f\<rparr>) = createNotification e"
  by (simp add: fun_eq_iff createNotification_def notification_create_def)

lemma foldl_createNotification_auditLogs:
  "foldl (\<lambda>acc u. createNotification e acc (g u)) (s\<lparr>auditLogs := x\<rparr>) us
     = (foldl (\<lambda>acc u. createNotification e acc (g u)) s us)\<lparr>auditLogs := x\<rparr>"
  by (induction us arbitrary: s) simp_all

lemma notifyAdmins_auditLogs [simp]:
  "notifyAdmins e (s\<lparr>auditLogs := x\<rparr>) ty ti et ei = (notifyAdmins e s ty ti et ei)\<lparr>auditLogs := x\<rparr>"
  by (simp add: notifyAdmins_def activeAdmins_def foldl_createNotification_auditLogs)

lemma notifyAdmins_env [simp]:
  "notifyAdmins (e\<lparr>auditCreateFails := f\<rparr>) = notifyAdmins e"
  by (simp add: fun_eq_iff notifyAdmins_def)

lemma orderUpdated_notify_auditLogs [simp]:
  "orderUpdated_notify e u i old d new (s\<lparr>auditLogs := x\<rparr>)
     = (orderUpdated_notify e u i old d new s)\<lparr>auditLogs := x\<rparr>"
  by (simp add: orderUpdated_notify_def Let_def)

lemma orderUpdated_notify_env [simp]:
  "orderUpdated_notify (e\<lparr>auditCreateFails := f\<rparr>) = orderUpdated_notify e"
  by (simp add: fun_eq_iff orderUpdated_notify_def)

lemma sansAudit_update [simp]: "sansAudit (s\<lparr>auditLogs := x\<rparr>) = sansAudit s"
  by (simp add: sansAudit_def)

lemma rateLimitIp_env [simp]: "rateLimitIp (e\<lparr>auditCreateFails := f\<rparr>) = rateLimitIp e"
  by (simp add: fun_eq_iff rateLimitIp_def)

lemma orderUpdateSchema_parse_env [simp]:
  "orderUpdateSchema_parse (e\<lparr>auditCreateFails := f\<rparr>) = orderUpdateSchema_parse e"
proof -
  have "toDate (e\<lparr>auditCreateFails := f\<rparr>) v = toDate e v" for v
    by (cases "(e, v)" rule: toDate.cases) simp_all
  then show ?thesis
    by (simp add: fun_eq_iff orderUpdateSchema_parse_def)
qed

lemma dispatchData_env [simp]: "dispatchData (e\<lparr>auditCreateFails := f\<rparr>) = dispatchData e"
  by (simp add: fun_eq_iff dispatchData_def)

lemma orders_PATCH_apply_audit:
  "map_prod id sansAudit (orders_PATCH_apply (e\<lparr>auditCreateFails := f\<rparr>) s1 req u old d)
     = map_prod id sansAudit (orders_PATCH_apply e s1 req u old d)"
proof -
  let ?e' = "e\<lparr>auditCreateFails := f\<rparr>"
  let ?s3 = "(recordPayment u (paramId req) old d s1)
               \<lparr>orders := row_update (orders (recordPayment u (paramId req) old d s1))
                            (paramId req) (dispatchData e u old d)\<rparr>"
  let ?a = "\<lparr>al_userId = su_id u, al_action = ''UPDATE'',
                    al_entityType = ''Order'', al_entityId = paramId req,
                    al_changes = OldNew old (old ++ dispatchData e u old d),
                    al_ipAddress = clientIp req, al_userAgent = agent req\<rparr>"
  obtain x where x: "createAuditLog e ?s3 ?a = Inr (?s3\<lparr>auditLogs := x\<rparr>)"
    using createAuditLog_Inr [of e ?s3 ?a] by auto
  obtain y where y: "createAuditLog ?e' ?s3 ?a = Inr (?s3\<lparr>auditLogs := y\<rparr>)"
    using createAuditLog_Inr [of ?e' ?s3 ?a] by auto
  show ?thesis
    by (simp add: orders_PATCH_apply_def Let_def x y)
qed

lemma orders_PATCH_audit:
  "map_prod id sansAudit (orders_PATCH (e\<lparr>auditCreateFails := f\<rparr>) s req)
     = map_prod id sansAudit (orders_PATCH e s req)"
  by (simp add: orders_PATCH_def orders_PATCH_apply_audit
           split: option.splits prod.splits)


lemma leadUpdated_notify_auditLogs [simp]:
  "leadUpdated_notify e u i cu old upd new (s\<lparr>auditLogs := x\<rparr>)
     = (leadUpdated_notify e u i cu old upd new s)\<lparr>auditLogs := x\<rparr>"
  by (cases "map_option u_role cu = Some ADMIN"; cases "map_option u_role cu = Some EMPLOYEE")
     (simp_all add: leadUpdated_notify_def Let_def del: map_option_eq_Some)

lemma leadUpdated_notify_env [simp]:
  "leadUpdated_notify (e\<lparr>auditCreateFails := f\<rparr>) = leadUpdated_notify e"
  by (simp add: fun_eq_iff leadUpdated_notify_def Let_def split del: if_split cong: if_cong)

lemma idField_env [simp]: "idField (e\<lparr>auditCreateFails := f\<rparr>) = idField e"
  by (simp add: fun_eq_iff idField_def split: option.splits json.splits)

lemma lead_updateData_env [simp]: "lead_updateData (e\<lparr>auditCreateFails := f\<rparr>) = lead_updateData e"
  by (simp add: fun_eq_iff lead_updateData_def)

lemma leadSchema_ok_env [simp]: "leadSchema_ok (e\<lparr>auditCreateFails := f\<rparr>) = leadSchema_ok e"
  by (simp add: fun_eq_iff leadSchema_ok_def)

lemma user_findUnique_auditLogs [simp]:
  "user_findUnique (s\<lparr>auditLogs := x\<rparr>) = user_findUnique s"
  by (simp add: fun_eq_iff user_findUnique_def)

lemma leads_PATCH_apply_audit:
  "map_prod id sansAudit (leads_PATCH_apply (e\<lparr>auditCreateFails := f\<rparr>) s1 req u old b)
     = map_prod id sansAudit (leads_PATCH_apply e s1 req u old b)"
proof -
  let ?e' = "e\<lparr>auditCreateFails := f\<rparr>"
  let ?upd = "lead_updateData e (stripAssignedTo u b)"
  let ?s2 = "s1\<lparr>leads := row_update (leads s1) (paramId req) ?upd\<rparr>"
  let ?a = "\<lparr>al_userId = su_id u, al_action = ''UPDATE'',
               al_entityType = ''Lead'', al_entityId = paramId req,
               al_changes = OldNewFields old (old ++ ?upd) ?upd,
               al_ipAddress = clientIp req, al_userAgent = agent req\<rparr>"
  obtain x where x: "createAuditLog e ?s2 ?a = Inr (?s2\<lparr>auditLogs := x\<rparr>)"
    using createAuditLog_Inr [of e ?s2 ?a] by auto
  obtain y where y: "createAuditLog ?e' ?s2 ?a = Inr (?s2\<lparr>auditLogs := y\<rparr>)"
    using createAuditLog_Inr [of ?e' ?s2 ?a] by auto
  show ?thesis
    by (simp add: leads_PATCH_apply_def Let_def x y)
qed

lemma leads_PATCH_audit:
  "map_prod id sansAudit (leads_PATCH (e\<lparr>auditCreateFails := f\<rparr>) s req)
     = map_prod id sansAudit (leads_PATCH e s req)"
  by (simp add: leads_PATCH_def leads_PATCH_apply_audit
           split: option.splits prod.splits)

lemma orderCreated_notify_auditLogs [simp]:
  "orderCreated_notify e u a (s\<lparr>auditLogs := x\<rparr>)
     = (orderCreated_notify e u a s)\<lparr>auditLogs := x\<rparr>"
  by (simp add: orderCreated_notify_def Let_def)

lemma orderCreated_notify_env [simp]:
  "orderCreated_notify (e\<lparr>auditCreateFails := f\<rparr>) = orderCreated_notify e"
  by (simp add: fun_eq_iff orderCreated_notify_def)

lemma order_create_env [simp]: "order_create (e\<lparr>auditCreateFails := f\<rparr>) = order_create e"
  by (simp add: fun_eq_iff order_create_def)

lemma initialPayment_env [simp]: "initialPayment (e\<lparr>auditCreateFails := f\<rparr>) = initialPayment e"
  by (simp add: fun_eq_iff initialPayment_def)

lemma orders_POST_convert_audit:
  "map_option (map_prod id sansAudit)
       (orders_POST_convert (e\<lparr>auditCreateFails := f\<rparr>) s1 req u b d i l)
     = map_option (map_prod id sansAudit) (orders_POST_convert e s1 req u b d i l)"
proof -
  let ?e' = "e\<lparr>auditCreateFails := f\<rparr>"
  let ?asg = "orderAssignee u b"
  have step: "map_option (map_prod id sansAudit)
                (case createAuditLog ?e' s4 a of
                   Inl err \<Rightarrow> Some (catch_zod err, s4)
                 | Inr s5 \<Rightarrow> Some (r, orderCreated_notify ?e' u asg s5))
              = map_option (map_prod id sansAudit)
                (case createAuditLog e s4 a of
                   Inl err \<Rightarrow> Some (catch_zod err, s4)
                 | Inr s5 \<Rightarrow> Some (r, orderCreated_notify e u asg s5))"
    for s4 a r asg
  proof -
    obtain x where x: "createAuditLog e s4 a = Inr (s4\<lparr>auditLogs := x\<rparr>)"
      using createAuditLog_Inr [of e s4 a] by auto
    obtain y where y: "createAuditLog ?e' s4 a = Inr (s4\<lparr>auditLogs := y\<rparr>)"
      using createAuditLog_Inr [of ?e' s4 a] by auto
    show ?thesis by (simp add: x y)
  qed
  show ?thesis
  proof (cases "pickOrderNumber (orders s1) (draws e)")
    case None
    then show ?thesis by (simp add: orders_POST_convert_def)
  next
    case (Some n)
    show ?thesis
    proof (cases "order_create e s1 (newOrderRow u d l ?asg n)")
      case (Inl err)
      then show ?thesis using Some by (simp add: orders_POST_convert_def)
    next
      case (Inr os)
      then show ?thesis
        using Some by (cases os) (simp add: orders_POST_convert_def Let_def step)
    qed
  qed
qed

lemma orders_POST_audit:
  "map_option (map_prod id sansAudit) (orders_POST (e\<lparr>auditCreateFails := f\<rparr>) s req)
     = map_option (map_prod id sansAudit) (orders_POST e s req)"
  by (simp add: orders_POST_def orders_POST_convert_audit
           split: option.splits prod.splits json.splits)

lemma auditEach_Inr:
  "\<exists>x. auditEach e s as = (None, s\<lparr>auditLogs := x\<rparr>)"
proof (induction as arbitrary: s)
  case Nil
  have "s = s\<lparr>auditLogs := auditLogs s\<rparr>" by simp
  then show ?case by (metis auditEach.simps(1))
next
  case (Cons a as)
  obtain x where x: "createAuditLog e s a = Inr (s\<lparr>auditLogs := x\<rparr>)"
    using createAuditLog_Inr [of e s a] by auto
  obtain y where "auditEach e (s\<lparr>auditLogs := x\<rparr>) as = (None, s\<lparr>auditLogs := x, auditLogs := y\<rparr>)"
    using Cons.IH [of "s\<lparr>auditLogs := x\<rparr>"] by auto
  then have "auditEach e s (a # as) = (None, s\<lparr>auditLogs := y\<rparr>)"
    by (simp add: x)
  then show ?case ..
qed

lemma bulkAssign_POST_audit:
  "map_prod id sansAudit (bulkAssign_POST (e\<lparr>auditCreateFails := f\<rparr>) s req)
     = map_prod id sansAudit (bulkAssign_POST e s req)"
proof -
  let ?e' = "e\<lparr>auditCreateFails := f\<rparr>"
  have step: "map_prod id sansAudit
                (case auditEach ?e' s2 as of
                   (Some err, s3) \<Rightarrow> (catch_permission err, s3)
                 | (None, s3) \<Rightarrow> (r, s3))
              = map_prod id sansAudit
                (case auditEach e s2 as of
                   (Some err, s3) \<Rightarrow> (catch_permission err, s3)
                 | (None, s3) \<Rightarrow> (r, s3))" for s2 as r
  proof -
    obtain x where x: "auditEach e s2 as = (None, s2\<lparr>auditLogs := x\<rparr>)"
      using auditEach_Inr [of e s2 as] by auto
    obtain y where y: "auditEach ?e' s2 as = (None, s2\<lparr>auditLogs := y\<rparr>)"
      using auditEach_Inr [of ?e' s2 as] by auto
    show ?thesis by (simp add: x y)
  qed
  show ?thesis
    by (simp add: bulkAssign_POST_def Let_def step
             split: option.splits prod.splits sum.splits)
qed

section \<open>What the side effects leave alone\<close>

lemma createNotification_frame [simp]:
  "leads (createNotification e s n) = leads s"
  "orders (createNotification e s n) = orders s"
  "payments (createNotification e s n) = payments s"
  "users (createNotification e s n) = users s"
  by (simp_all add: createNotification_def notification_create_def)

lemma notifyAdmins_frame [simp]:
  "leads (notifyAdmins e s ty ti et ei) = leads s"
  "orders (notifyAdmins e s ty ti et ei) = orders s"
  "payments (notifyAdmins e s ty ti et ei) = payments s"
proof -
  have "leads (foldl (\<lambda>acc u. createNotification e acc (g u)) s us) = leads s \<and>
        orders (foldl (\<lambda>acc u. createNotification e acc (g u)) s us) = orders s \<and>
        payments (foldl (\<lambda>acc u. createNotification e acc (g u)) s us) = payments s"
    for g :: "user \<Rightarrow> notification" and us
    by (induction us arbitrary: s) simp_all
  then show "leads (notifyAdmins e s ty ti et ei) = leads s"
    "orders (notifyAdmins e s ty ti et ei) = orders s"
    "payments (notifyAdmins e s ty ti et ei) = payments s"
    by (simp_all add: notifyAdmins_def)
qed

lemma createAuditLog_frame:
  "createAuditLog e s a = Inr s' \<Longrightarrow>
     leads s' = leads s \<and> orders s' = orders s \<and> payments s' = payments s"
  using createAuditLog_cases [of e s a] by auto

lemma orderUpdated_notify_frame [simp]:
  "leads (orderUpdated_notify e u i old d new s) = leads s"
  "orders (orderUpdated_notify e u i old d new s) = orders s"
  "payments (orderUpdated_notify e u i old d new s) = payments s"
  by (simp_all add: orderUpdated_notify_def Let_def)

lemma rateLimitIp_tables:
  "rateLimitIp e s req = (ok, s1) \<Longrightarrow>
     users s1 = users s \<and> leads s1 = leads s \<and> orders s1 = orders s \<and> payments s1 = payments s"
  by (auto simp: rateLimitIp_def split: prod.splits)

lemma failure_statuses [simp]:
  "status unauthorized = 401" "status tooManyRequests = 429" "status forbidden = 403"
  "status (notFound what) = 404" "status badRequest = 400" "status internalError = 500"
  "status (catch_zod err) \<noteq> 200" "status (catch_zod err) \<noteq> 201"
  by (simp_all add: unauthorized_def tooManyRequests_def forbidden_def notFound_def
        badRequest_def internalError_def catch_zod_def)

section \<open>Order update: properties\<close>

lemmas order_update_defs = orders_PATCH_def orders_PATCH_apply_def orderUpdateSchema_parse_def
  orderUpdateSchema_ok_def orderUpdateSchema_keys_def dispatchData_def paymentIncrease_def
  recordPayment_def hasInvalidDate_def orderUpdated_notify_def row_findUnique_def row_update_def
  createAuditLog_def auditLog_create_def catch_zod_def

text \<open>What a successful order update has done.\<close>

lemma orders_PATCH_apply_success:
  assumes "orders_PATCH_apply e s1 req u old d = (r, s')" and "status r = 200"
  shows "r = \<lparr>status = 200, payload = Entity (old ++ dispatchData e u old d)\<rparr> \<and>
         payments s' = payments (recordPayment u (paramId req) old d s1) \<and>
         orders s' = row_update (orders s1) (paramId req) (dispatchData e u old d) \<and>
         leads s' = leads s1"
proof -
  let ?s2 = "recordPayment u (paramId req) old d s1"
  let ?s3 = "?s2\<lparr>orders := row_update (orders s1) (paramId req) (dispatchData e u old d)\<rparr>"
  let ?a = "\<lparr>al_userId = su_id u, al_action = ''UPDATE'',
               al_entityType = ''Order'', al_entityId = paramId req,
               al_changes = OldNew old (old ++ dispatchData e u old d),
               al_ipAddress = clientIp req, al_userAgent = agent req\<rparr>"
  obtain s4 where s4: "createAuditLog e ?s3 ?a = Inr s4"
    using createAuditLog_cases [of e ?s3 ?a] by auto
  have fr: "leads s4 = leads ?s3 \<and> orders s4 = orders ?s3 \<and> payments s4 = payments ?s3"
    using s4 by (rule createAuditLog_frame)
  have rp: "orders ?s2 = orders s1" "leads ?s2 = leads s1"
    by (simp_all add: recordPayment_def)
  show ?thesis
    using assms fr rp
    by (auto simp: orders_PATCH_apply_def Let_def s4 split: if_splits)
qed

lemma orders_PATCH_success:
  assumes "orders_PATCH e s req = (r, s')" and "status r = 200"
  shows "\<exists>u s1 old body d.
           sessionUser req = Some u \<and> rateLimitIp e s req = (True, s1) \<and>
           row_findUnique (orders s) ''id'' (paramId req) = Some old \<and>
           jsonBody req = Some body \<and> orderUpdateSchema_parse e body = Some d \<and>
           orders_PATCH_apply e s1 req u old d = (r, s')"
proof -
  obtain ok s1 where rl: "rateLimitIp e s req = (ok, s1)"
    by (cases "rateLimitIp e s req")
  have o: "orders s1 = orders s"
    using rateLimitIp_tables [OF rl] by simp
  show ?thesis
    using assms rl o
    by (auto simp: orders_PATCH_def split: option.splits if_splits)
qed


lemma row_update_findUnique:
  "row_findUnique rows ''id'' i = Some old \<Longrightarrow> upd ''id'' = None \<Longrightarrow>
     row_findUnique (row_update rows i upd) ''id'' i = Some (old ++ upd)"
proof (induction rows)
  case Nil
  then show ?case by (simp add: row_findUnique_def)
next
  case (Cons r rows)
  have keep: "(r ++ upd) ''id'' = r ''id''"
    using Cons.prems(2) by (simp add: map_add_def)
  show ?case
  proof (cases "r ''id'' = Some (JStr i)")
    case True
    then show ?thesis
      using Cons.prems(1) keep by (simp add: row_findUnique_def row_update_def)
  next
    case False
    then have "row_findUnique rows ''id'' i = Some old"
      using Cons.prems(1) by (simp add: row_findUnique_def)
    then have "row_findUnique (row_update rows i upd) ''id'' i = Some (old ++ upd)"
      using Cons.prems(2) by (rule Cons.IH)
    then show ?thesis
      using False by (simp add: row_findUnique_def row_update_def)
  qed
qed

lemma orderUpdateSchema_parse_receivedAmount:
  assumes "orderUpdateSchema_parse e body = Some d"
  shows "d ''receivedAmount'' = body ''receivedAmount'' \<and> d ''id'' = None \<and>
         (body ''receivedAmount'' = None \<or> (\<exists>b. body ''receivedAmount'' = Some (JNum b) \<and> 0 \<le> b))"
proof -
  have ok: "orderUpdateSchema_ok body" and d: "d = (body |` set orderUpdateSchema_keys)
                   (''dispatchDate'' := toDate e (body ''dispatchDate''),
                    ''deliveredDate'' := toDate e (body ''deliveredDate''),
                    ''returnDate'' := toDate e (body ''returnDate''))"
    using assms by (simp_all add: orderUpdateSchema_parse_def split: if_splits)
  have "optNumberMin0 (body ''receivedAmount'')"
    using ok by (simp add: orderUpdateSchema_ok_def)
  then have v: "body ''receivedAmount'' = None \<or> (\<exists>b. body ''receivedAmount'' = Some (JNum b) \<and> 0 \<le> b)"
  proof (cases "body ''receivedAmount''")
    case None
    then show ?thesis by simp
  next
    case (Some x)
    then show ?thesis using \<open>optNumberMin0 (body ''receivedAmount'')\<close>
      by (cases x) simp_all
  qed
  show ?thesis
    using v by (simp add: d orderUpdateSchema_keys_def restrict_map_def)
qed

lemma dispatchData_other_keys:
  "k \<noteq> ''dispatchedBy'' \<Longrightarrow> k \<noteq> ''dispatchDate'' \<Longrightarrow> dispatchData e u old d k = d k"
  by (simp add: dispatchData_def)

text \<open>
  C2 (as amended). A successful order update stores the received amount the body
  supplies, whatever it is, and leaves it as it was when the body has none: the amount
  is not kept from going down. When the supplied amount is strictly above the previous
  one (a non-negative number), both read as doubles, exactly one Payment is appended,
  for the order, of type INITIAL when the previous amount was zero and PARTIAL
  otherwise; its amount is the difference as the handler computes it, a subtraction of
  doubles, which is the exact difference rounded to the nearest double. In every other
  case no Payment is appended.
\<close>

theorem orders_PATCH_receivedAmount:
  assumes "orders_PATCH e s req = (r, s')" and "status r = 200"
    and "row_findUnique (orders s) ''id'' (paramId req) = Some old"
    and "old ''receivedAmount'' = Some (JNum a)" and "0 \<le> a"
  shows "\<exists>body new.
           jsonBody req = Some body \<and> payload r = Entity new \<and>
           row_findUnique (orders s') ''id'' (paramId req) = Some new \<and>
           (case body ''receivedAmount'' of
              None \<Rightarrow> new ''receivedAmount'' = Some (JNum a) \<and> payments s' = payments s
            | Some v \<Rightarrow>
                new ''receivedAmount'' = Some v \<and>
                (\<exists>b. v = JNum b \<and> 0 \<le> b \<and>
                   (if binary64 a < binary64 b
                    then \<exists>p. payments s' = payments s @ [p] \<and>
                             pay_orderId p = paramId req \<and>
                             pay_amount p = binary64 (binary64 b - binary64 a) \<and>
                             pay_paymentType p = (if binary64 a = 0 then INITIAL else PARTIAL)
                    else payments s' = payments s)))"
proof -
  obtain u s1 old' body d where
    rl: "rateLimitIp e s req = (True, s1)" and
    old': "row_findUnique (orders s) ''id'' (paramId req) = Some old'" and
    body: "jsonBody req = Some body" and
    d: "orderUpdateSchema_parse e body = Some d" and
    ap: "orders_PATCH_apply e s1 req u old' d = (r, s')"
    using orders_PATCH_success [OF assms(1,2)] by blast
  have same: "old' = old" using old' assms(3) by simp
  let ?upd = "dispatchData e u old d"
  let ?new = "old ++ ?upd"
  have tabs: "orders s1 = orders s" "payments s1 = payments s"
    using rateLimitIp_tables [OF rl] by simp_all
  have res: "r = \<lparr>status = 200, payload = Entity ?new\<rparr>"
    and pay: "payments s' = payments (recordPayment u (paramId req) old d s1)"
    and ord: "orders s' = row_update (orders s1) (paramId req) ?upd"
    using orders_PATCH_apply_success [OF ap assms(2)] by (simp_all add: same)
  have dra: "d ''receivedAmount'' = body ''receivedAmount''" and did: "d ''id'' = None"
    and v: "body ''receivedAmount'' = None \<or> (\<exists>b. body ''receivedAmount'' = Some (JNum b) \<and> 0 \<le> b)"
    using orderUpdateSchema_parse_receivedAmount [OF d] by simp_all
  have upd_ra: "?upd ''receivedAmount'' = body ''receivedAmount''"
    using dra by (simp add: dispatchData_other_keys)
  have upd_id: "?upd ''id'' = None"
    using did by (simp add: dispatchData_other_keys)
  have stored: "row_findUnique (orders s') ''id'' (paramId req) = Some ?new"
    using assms(3) upd_id by (simp add: ord tabs row_update_findUnique)
  have entity: "payload r = Entity ?new"
    by (simp add: res)
  have a0: "0 \<le> binary64 a"
    using assms(5) by (rule binary64_nonneg)
  have rest: "case body ''receivedAmount'' of
              None \<Rightarrow> ?new ''receivedAmount'' = Some (JNum a) \<and> payments s' = payments s
            | Some v \<Rightarrow>
                ?new ''receivedAmount'' = Some v \<and>
                (\<exists>b. v = JNum b \<and> 0 \<le> b \<and>
                   (if binary64 a < binary64 b
                    then \<exists>p. payments s' = payments s @ [p] \<and>
                             pay_orderId p = paramId req \<and>
                             pay_amount p = binary64 (binary64 b - binary64 a) \<and>
                             pay_paymentType p = (if binary64 a = 0 then INITIAL else PARTIAL)
                    else payments s' = payments s))"
    using v
  proof
    assume none: "body ''receivedAmount'' = None"
    have "\<not> paymentIncrease old d"
      using none dra by (simp add: paymentIncrease_def)
    then have "payments s' = payments s"
      by (simp add: pay tabs recordPayment_def)
    moreover have "?new ''receivedAmount'' = Some (JNum a)"
      using upd_ra none assms(4) by (simp add: map_add_def)
    ultimately show ?thesis
      by (simp add: none)
  next
    assume "\<exists>b. body ''receivedAmount'' = Some (JNum b) \<and> 0 \<le> b"
    then obtain b where b: "body ''receivedAmount'' = Some (JNum b)" "0 \<le> b" by blast
    have nz: "binary64 a < binary64 b \<Longrightarrow> b \<noteq> 0"
      using a0 by auto
    have inc: "paymentIncrease old d = (binary64 a < binary64 b)"
      using b dra assms(4) nz by (auto simp: paymentIncrease_def)
    have newra: "?new ''receivedAmount'' = Some (JNum b)"
      using upd_ra b(1) by (simp add: map_add_def)
    have ps: "if binary64 a < binary64 b
              then \<exists>p. payments s' = payments s @ [p] \<and>
                       pay_orderId p = paramId req \<and>
                       pay_amount p = binary64 (binary64 b - binary64 a) \<and>
                       pay_paymentType p = (if binary64 a = 0 then INITIAL else PARTIAL)
              else payments s' = payments s"
    proof (cases "binary64 a < binary64 b")
      case True
      have ty: "num_gt (Number (old ''receivedAmount'')) (Some 0) = (binary64 a \<noteq> 0)"
        using assms(4) a0 by auto
      have "payments s' = payments s @
              [\<lparr>pay_orderId = paramId req, pay_amount = binary64 (binary64 b - binary64 a),
                pay_paymentType = (if binary64 a = 0 then INITIAL else PARTIAL),
                pay_paymentMethod =
                  the (orElse (d ''paymentMethod'')
                         (orElse (old ''paymentMethod'') (Some (JStr ''MONEY_ORDER'')))),
                pay_referenceNumber = orElse (d ''moneyOrderNumber'') (old ''moneyOrderNumber''),
                pay_receivedBy = su_id u\<rparr>]"
        using True inc ty b(1) dra assms(4)
        by (simp add: pay tabs recordPayment_def)
      then show ?thesis
        using True by simp
    next
      case False
      then have "payments s' = payments s"
        using inc by (simp add: pay tabs recordPayment_def)
      then show ?thesis
        using False by simp
    qed
    show ?thesis
      using newra ps b by (simp add: b(1))
  qed
  show ?thesis
    using body entity stored rest by blast
qed

theorem orders_PATCH_receivedAmount_witness:
  "status (fst (orders_PATCH env0 store0 (request_by ''e1'' EMPLOYEE ''o1'' raiseBody))) = 200 \<and>
   row_findUnique (orders store0) ''id'' ''o1'' = Some order1 \<and>
   order1 ''receivedAmount'' = Some (JNum 2000) \<and>
   (\<exists>new p.
      row_findUnique
        (orders (snd (orders_PATCH env0 store0 (request_by ''e1'' EMPLOYEE ''o1'' raiseBody))))
        ''id'' ''o1'' = Some new \<and>
      new ''receivedAmount'' = Some (JNum 3500) \<and>
      payments (snd (orders_PATCH env0 store0 (request_by ''e1'' EMPLOYEE ''o1'' raiseBody)))
        = payments store0 @ [p] \<and>
      pay_amount p = 1500 \<and> pay_paymentType p = PARTIAL)"
proof -
  let ?req = "request_by ''e1'' EMPLOYEE ''o1'' raiseBody"
  let ?R = "orders_PATCH env0 store0 ?req"
  have run: "?R = (fst ?R, snd ?R)" by simp
  have ok: "status (fst ?R) = 200"
    by (simp add: order_update_defs prelude_defs example_data raiseBody_def Let_def
          restrict_map_def binary64_whole)
  have old: "row_findUnique (orders store0) ''id'' (paramId ?req) = Some order1"
    by (simp add: row_findUnique_def example_data)
  have ra: "order1 ''receivedAmount'' = Some (JNum 2000)"
    by (simp add: order1_def)
  have b: "jsonBody ?req = Some raiseBody" "paramId ?req = ''o1''"
    by (simp_all add: request_by_def)
  have amt: "raiseBody ''receivedAmount'' = Some (JNum 3500)"
    by (simp add: raiseBody_def)
  obtain body new where
    body: "jsonBody ?req = Some body" and
    new: "row_findUnique (orders (snd ?R)) ''id'' (paramId ?req) = Some new" and
    c: "case body ''receivedAmount'' of
          None \<Rightarrow> new ''receivedAmount'' = Some (JNum 2000) \<and> payments (snd ?R) = payments store0
        | Some v \<Rightarrow>
            new ''receivedAmount'' = Some v \<and>
            (\<exists>b. v = JNum b \<and> 0 \<le> b \<and>
               (if binary64 2000 < binary64 b
                then \<exists>p. payments (snd ?R) = payments store0 @ [p] \<and>
                         pay_orderId p = paramId ?req \<and>
                         pay_amount p = binary64 (binary64 b - binary64 2000) \<and>
                         pay_paymentType p = (if binary64 2000 = 0 then INITIAL else PARTIAL)
                else payments (snd ?R) = payments store0))"
    using orders_PATCH_receivedAmount [OF run ok old ra] by auto
  have "body = raiseBody" using body b(1) by simp
  then have "new ''receivedAmount'' = Some (JNum 3500) \<and>
             (\<exists>p. payments (snd ?R) = payments store0 @ [p] \<and>
                  pay_amount p = 1500 \<and> pay_paymentType p = PARTIAL)"
    using c by (auto simp: amt binary64_whole)
  then show ?thesis
    using ok old ra new by (auto simp: b(2))
qed

text \<open>
  An administrator lowers the received amount of the order from 2000 to 1000: the
  update succeeds, the stored amount is 1000, and no Payment is written. And an
  administrator raises it from 2000 to 2000.3: the Payment written is for
  0.2999999999999545, the difference of the two doubles, and not for the delta 0.3.
\<close>

theorem orders_PATCH_lower_counterexample:
  "status (fst (orders_PATCH env0 store0 (request_by ''a1'' ADMIN ''o1'' lowerBody))) = 200 \<and>
   map (\<lambda>ord. ord ''receivedAmount'') (orders store0) = [Some (JNum 2000)] \<and>
   map (\<lambda>ord. ord ''receivedAmount'')
     (orders (snd (orders_PATCH env0 store0 (request_by ''a1'' ADMIN ''o1'' lowerBody))))
     = [Some (JNum 1000)] \<and>
   payments (snd (orders_PATCH env0 store0 (request_by ''a1'' ADMIN ''o1'' lowerBody))) = [] \<and>
   status (fst (orders_PATCH env0 store0 (request_by ''a1'' ADMIN ''o1'' centsBody))) = 200 \<and>
   map (\<lambda>ord. ord ''receivedAmount'')
     (orders (snd (orders_PATCH env0 store0 (request_by ''a1'' ADMIN ''o1'' centsBody))))
     = [Some (JNum (20003 / 10))] \<and>
   map pay_amount
     (payments (snd (orders_PATCH env0 store0 (request_by ''a1'' ADMIN ''o1'' centsBody))))
     = [1319413953331 / 4398046511104] \<and>
   (1319413953331 / 4398046511104 :: rat) \<noteq> 20003 / 10 - 2000"
proof -
  have lower:
    "status (fst (orders_PATCH env0 store0 (request_by ''a1'' ADMIN ''o1'' lowerBody))) = 200 \<and>
     map (\<lambda>ord. ord ''receivedAmount'') (orders store0) = [Some (JNum 2000)] \<and>
     map (\<lambda>ord. ord ''receivedAmount'')
       (orders (snd (orders_PATCH env0 store0 (request_by ''a1'' ADMIN ''o1'' lowerBody))))
       = [Some (JNum 1000)] \<and>
     payments (snd (orders_PATCH env0 store0 (request_by ''a1'' ADMIN ''o1'' lowerBody))) = []"
    by (simp add: order_update_defs prelude_defs example_data lowerBody_def Let_def
          restrict_map_def binary64_whole)
  have cents:
    "status (fst (orders_PATCH env0 store0 (request_by ''a1'' ADMIN ''o1'' centsBody))) = 200 \<and>
     map (\<lambda>ord. ord ''receivedAmount'')
       (orders (snd (orders_PATCH env0 store0 (request_by ''a1'' ADMIN ''o1'' centsBody))))
       = [Some (JNum (20003 / 10))] \<and>
     map pay_amount
       (payments (snd (orders_PATCH env0 store0 (request_by ''a1'' ADMIN ''o1'' centsBody))))
       = [1319413953331 / 4398046511104]"
    by (simp add: order_update_defs prelude_defs example_data centsBody_def Let_def
          restrict_map_def binary64_whole binary64_cents)
  have "(1319413953331 / 4398046511104 :: rat) \<noteq> 20003 / 10 - 2000"
    by simp
  with lower cents show ?thesis
    by simp
qed

section \<open>Audit recorder: a failed write changes no outcome\<close>

text \<open>
  C9. When the write of the audit-log table fails, \<open>createAuditLog\<close> catches the
  failure and returns normally, with the store as it was; it never throws. So the
  handlers that call it (order creation, order update, lead update, bulk assignment)
  give the same response, and leave every table but the audit log in the same state,
  whether or not the audit writes fail.
\<close>

theorem createAuditLog_swallows_failure:
  "(auditCreateFails e entry \<longrightarrow> createAuditLog e s entry = Inr s) \<and>
   (\<exists>s'. createAuditLog e s entry = Inr s') \<and>
   map_option (map_prod id sansAudit) (orders_POST (e\<lparr>auditCreateFails := f\<rparr>) s req)
     = map_option (map_prod id sansAudit) (orders_POST e s req) \<and>
   map_prod id sansAudit (orders_PATCH (e\<lparr>auditCreateFails := f\<rparr>) s req)
     = map_prod id sansAudit (orders_PATCH e s req) \<and>
   map_prod id sansAudit (leads_PATCH (e\<lparr>auditCreateFails := f\<rparr>) s req)
     = map_prod id sansAudit (leads_PATCH e s req) \<and>
   map_prod id sansAudit (bulkAssign_POST (e\<lparr>auditCreateFails := f\<rparr>) s req)
     = map_prod id sansAudit (bulkAssign_POST e s req)"
proof -
  have caught: "auditCreateFails e entry \<longrightarrow> createAuditLog e s entry = Inr s"
    by (simp add: createAuditLog_def auditLog_create_def)
  have returns: "\<exists>s'. createAuditLog e s entry = Inr s'"
    using createAuditLog_cases [of e s entry] by auto
  show ?thesis
    using caught returns
    by (simp only: orders_POST_audit orders_PATCH_audit leads_PATCH_audit bulkAssign_POST_audit
          simp_thms)
qed

theorem createAuditLog_swallows_failure_witness:
  "auditCreateFails envAuditDown entry0 \<and>
   createAuditLog envAuditDown store0 entry0 = Inr store0 \<and>
   status (fst (orders_PATCH envAuditDown store0 (request_by ''e1'' EMPLOYEE ''o1'' raiseBody))) = 200 \<and>
   map_prod id sansAudit
     (orders_PATCH envAuditDown store0 (request_by ''e1'' EMPLOYEE ''o1'' raiseBody))
     = map_prod id sansAudit
         (orders_PATCH env0 store0 (request_by ''e1'' EMPLOYEE ''o1'' raiseBody))"
proof -
  let ?req = "request_by ''e1'' EMPLOYEE ''o1'' raiseBody"
  have down: "auditCreateFails envAuditDown entry0"
    by (simp add: envAuditDown_def)
  have ok: "status (fst (orders_PATCH envAuditDown store0 ?req)) = 200"
    by (simp add: order_update_defs prelude_defs example_data raiseBody_def Let_def
          restrict_map_def envAuditDown_def)
  have a: "createAuditLog envAuditDown store0 entry0 = Inr store0"
    using createAuditLog_swallows_failure [of envAuditDown entry0 store0] down by simp
  have b: "map_prod id sansAudit (orders_PATCH envAuditDown store0 ?req)
             = map_prod id sansAudit (orders_PATCH env0 store0 ?req)"
    using createAuditLog_swallows_failure [of env0 entry0 store0 "\<lambda>a. True" ?req]
    by (simp only: envAuditDown_def)
  show ?thesis
    using down ok a b by simp
qed

section \<open>Lead update: properties\<close>

lemma addField_other: "k' \<noteq> k \<Longrightarrow> addField body k t upd k' = upd k'"
  by (simp add: addField_def split: option.splits)

lemma addFields_other: "k' \<notin> set ks \<Longrightarrow> addFields body ks upd k' = upd k'"
proof (induction ks arbitrary: upd)
  case Nil
  then show ?case by (simp add: addFields_def)
next
  case (Cons k ks)
  have "addFields body (k # ks) upd = addFields body ks (addField body k Some upd)"
    by (simp add: addFields_def)
  then show ?case
    using Cons by (simp add: addField_other)
qed

lemma idField_other: "k' \<noteq> k \<Longrightarrow> idField e body k upd k' = upd k'"
  by (simp add: idField_def split: option.splits json.splits)

lemma plainField_other: "k' \<noteq> k \<Longrightarrow> plainField body k upd k' = upd k'"
  by (simp add: plainField_def split: option.splits)

lemma plainField_same: "plainField body k upd k = (case body k of None \<Rightarrow> upd k | Some v \<Rightarrow> Some v)"
  by (simp add: plainField_def split: option.splits)

text \<open>The update object carries \<open>assignedTo\<close> exactly when the body does.\<close>

lemma lead_updateData_assignedTo:
  "lead_updateData e body ''assignedTo'' = body ''assignedTo''"
  by (cases "body ''assignedTo''")
     (simp_all add: lead_updateData_def Let_def plainField_same plainField_other addField_other
        addFields_other idField_other)

lemma stripAssignedTo_employee:
  "su_role u = EMPLOYEE \<Longrightarrow> stripAssignedTo u body ''assignedTo'' = None"
  by (auto simp: stripAssignedTo_def)

lemma row_update_keeps_column:
  "upd k = None \<Longrightarrow> map (\<lambda>r. r k) (row_update rows i upd) = map (\<lambda>r. r k) rows"
  by (induction rows) (simp_all add: row_update_def map_add_def)

lemma leadUpdated_notify_frame [simp]:
  "leads (leadUpdated_notify e u i cu old upd new s) = leads s"
  "orders (leadUpdated_notify e u i cu old upd new s) = orders s"
  "payments (leadUpdated_notify e u i cu old upd new s) = payments s"
  by (simp_all add: leadUpdated_notify_def Let_def)

lemma leads_PATCH_apply_leads:
  "leads (snd (leads_PATCH_apply e s1 req u old body0))
     = row_update (leads s1) (paramId req) (lead_updateData e (stripAssignedTo u body0))"
proof -
  let ?upd = "lead_updateData e (stripAssignedTo u body0)"
  let ?s2 = "s1\<lparr>leads := row_update (leads s1) (paramId req) ?upd\<rparr>"
  let ?a = "\<lparr>al_userId = su_id u, al_action = ''UPDATE'',
               al_entityType = ''Lead'', al_entityId = paramId req,
               al_changes = OldNewFields old (old ++ ?upd) ?upd,
               al_ipAddress = clientIp req, al_userAgent = agent req\<rparr>"
  obtain s3 where s3: "createAuditLog e ?s2 ?a = Inr s3"
    using createAuditLog_cases [of e ?s2 ?a] by auto
  have "leads s3 = leads ?s2"
    using createAuditLog_frame [OF s3] by simp
  then show ?thesis
    by (simp add: leads_PATCH_apply_def Let_def s3)
qed

lemma lead_updateData_status:
  "lead_updateData e body ''status'' = body ''status''"
  by (cases "body ''status''")
     (simp_all add: lead_updateData_def Let_def plainField_same plainField_other addField_other
        addFields_other idField_other)

lemma leads_PATCH_apply_status:
  "status (fst (leads_PATCH_apply e s1 req u old body0)) = 200"
proof -
  let ?upd = "lead_updateData e (stripAssignedTo u body0)"
  let ?s2 = "s1\<lparr>leads := row_update (leads s1) (paramId req) ?upd\<rparr>"
  let ?a = "\<lparr>al_userId = su_id u, al_action = ''UPDATE'',
               al_entityType = ''Lead'', al_entityId = paramId req,
               al_changes = OldNewFields old (old ++ ?upd) ?upd,
               al_ipAddress = clientIp req, al_userAgent = agent req\<rparr>"
  obtain s3 where s3: "createAuditLog e ?s2 ?a = Inr s3"
    using createAuditLog_cases [of e ?s2 ?a] by auto
  show ?thesis
    by (simp add: leads_PATCH_apply_def Let_def s3)
qed

lemma leads_PATCH_example:
  "leads_PATCH env0 store0 (request_by ''e1'' EMPLOYEE ''l1'' reassignBody)
     = leads_PATCH_apply env0
         (store0\<lparr>rateLimits := [''10.0.0.1'' \<mapsto> \<lparr>count = 1, resetTime = 1700000900123\<rparr>]\<rparr>)
         (request_by ''e1'' EMPLOYEE ''l1'' reassignBody)
         \<lparr>su_id = ''e1'', su_role = EMPLOYEE\<rparr> lead1 reassignBody"
  by (simp add: leads_PATCH_def prelude_defs row_findUnique_def leadSchema_ok_def
        example_data reassignBody_def)

text \<open>
  C8. A lead update requested by a session user of role EMPLOYEE leaves the
  \<open>assignedTo\<close> column of every lead as it was, whether or not the body has an
  \<open>assignedTo\<close> key: the key is deleted from the body before the update object is
  built from it. (The example shows the status of the lead changing in the same request.)
\<close>

theorem leads_PATCH_employee_keeps_assignedTo:
  assumes "sessionUser req = Some u" and "su_role u = EMPLOYEE"
  shows "map (\<lambda>l. l ''assignedTo'') (leads (snd (leads_PATCH e s req)))
           = map (\<lambda>l. l ''assignedTo'') (leads s)"
proof -
  obtain ok s1 where rl: "rateLimitIp e s req = (ok, s1)"
    by (cases "rateLimitIp e s req")
  have l: "leads s1 = leads s"
    using rateLimitIp_tables [OF rl] by simp
  have none: "lead_updateData e (stripAssignedTo u body0) ''assignedTo'' = None" for body0
    using assms(2) by (simp add: lead_updateData_assignedTo stripAssignedTo_employee)
  have ap: "map (\<lambda>l. l ''assignedTo'') (leads (snd (leads_PATCH_apply e s1 req u old body0)))
              = map (\<lambda>l. l ''assignedTo'') (leads s)" for old body0
    using none [of body0] by (simp add: leads_PATCH_apply_leads row_update_keeps_column l)
  show ?thesis
    using assms(1) rl l ap
    by (simp add: leads_PATCH_def split: option.splits)
qed

theorem leads_PATCH_employee_keeps_assignedTo_witness:
  "sessionUser (request_by ''e1'' EMPLOYEE ''l1'' reassignBody)
     = Some \<lparr>su_id = ''e1'', su_role = EMPLOYEE\<rparr> \<and>
   status (fst (leads_PATCH env0 store0 (request_by ''e1'' EMPLOYEE ''l1'' reassignBody))) = 200 \<and>
   map (\<lambda>l. l ''assignedTo'')
     (leads (snd (leads_PATCH env0 store0 (request_by ''e1'' EMPLOYEE ''l1'' reassignBody))))
     = [Some (JStr ''e1''), Some (JStr ''e1'')] \<and>
   map (\<lambda>l. l ''status'') (leads store0) = [Some (JStr ''NEW''), Some (JStr ''CONVERTED'')] \<and>
   map (\<lambda>l. l ''status'')
     (leads (snd (leads_PATCH env0 store0 (request_by ''e1'' EMPLOYEE ''l1'' reassignBody))))
     = [Some (JStr ''CONTACTED''), Some (JStr ''CONVERTED'')]"
proof -
  let ?req = "request_by ''e1'' EMPLOYEE ''l1'' reassignBody"
  let ?u = "\<lparr>su_id = ''e1'', su_role = EMPLOYEE\<rparr>"
  have a: "sessionUser ?req = Some ?u"
    by (simp add: sessionUser_def request_by_def)
  have b: "su_role ?u = EMPLOYEE" by simp
  have before: "map (\<lambda>l. l ''assignedTo'') (leads store0) = [Some (JStr ''e1''), Some (JStr ''e1'')]"
    "map (\<lambda>l. l ''status'') (leads store0) = [Some (JStr ''NEW''), Some (JStr ''CONVERTED'')]"
    by (simp_all add: example_data)
  have ok: "status (fst (leads_PATCH env0 store0 ?req)) = 200"
    by (simp only: leads_PATCH_example leads_PATCH_apply_status)
  have upd: "lead_updateData env0 (stripAssignedTo ?u reassignBody) ''status''
               = Some (JStr ''CONTACTED'')"
    by (simp add: lead_updateData_status stripAssignedTo_def reassignBody_def)
  have st: "map (\<lambda>l. l ''status'') (leads (snd (leads_PATCH env0 store0 ?req)))
              = [Some (JStr ''CONTACTED''), Some (JStr ''CONVERTED'')]"
    unfolding leads_PATCH_example leads_PATCH_apply_leads
    using upd
    by (simp add: row_update_def map_add_def store0_def lead1_def lead2_def request_by_def)
  show ?thesis
    using leads_PATCH_employee_keeps_assignedTo [OF a b, of env0 store0] a before ok st
    by simp
qed

section \<open>Order creation: properties\<close>

lemma createNotification_frame2 [simp]:
  "rateLimits (createNotification e s n) = rateLimits s"
  by (simp add: createNotification_def notification_create_def)

lemma notifyAdmins_frame2 [simp]:
  "users (notifyAdmins e s ty ti et ei) = users s"
  "rateLimits (notifyAdmins e s ty ti et ei) = rateLimits s"
proof -
  have "users (foldl (\<lambda>acc u. createNotification e acc (g u)) s us) = users s \<and>
        rateLimits (foldl (\<lambda>acc u. createNotification e acc (g u)) s us) = rateLimits s"
    for g :: "user \<Rightarrow> notification" and us
    by (induction us arbitrary: s) simp_all
  then show "users (notifyAdmins e s ty ti et ei) = users s"
    "rateLimits (notifyAdmins e s ty ti et ei) = rateLimits s"
    by (simp_all add: notifyAdmins_def)
qed

lemma orderCreated_notify_frame [simp]:
  "users (orderCreated_notify e u a s) = users s"
  "leads (orderCreated_notify e u a s) = leads s"
  "orders (orderCreated_notify e u a s) = orders s"
  "payments (orderCreated_notify e u a s) = payments s"
  "rateLimits (orderCreated_notify e u a s) = rateLimits s"
  by (simp_all add: orderCreated_notify_def Let_def)

lemma createAuditLog_frame2:
  "createAuditLog e s a = Inr s' \<Longrightarrow> users s' = users s \<and> rateLimits s' = rateLimits s"
  using createAuditLog_cases [of e s a] by auto

text \<open>The loop returns the first candidate that no stored order carries.\<close>

lemma pickOrderNumber_first_free:
  "pickOrderNumber os ds =
     (case find (\<lambda>(t, r). row_findUnique os ''orderNumber'' (generateOrderNumber t r) = None) ds of
        None \<Rightarrow> None
      | Some (t, r) \<Rightarrow> Some (generateOrderNumber t r))"
  by (induction os ds rule: pickOrderNumber.induct) (simp_all add: Let_def)

lemma pickOrderNumber_free:
  "pickOrderNumber os ds = Some n \<Longrightarrow> row_findUnique os ''orderNumber'' n = None"
  by (induction os ds rule: pickOrderNumber.induct) (auto simp: Let_def split: if_splits)

lemma row_findUnique_None:
  "row_findUnique rows k v = None \<longleftrightarrow> (\<forall>r \<in> set rows. r k \<noteq> Some (JStr v))"
  by (auto simp: row_findUnique_def find_None_iff)

lemma orders_POST_convert_success:
  assumes "orders_POST_convert e s1 req u body data leadId lead = Some (r, s')"
    and "status r = 201"
  shows "\<exists>n.
           pickOrderNumber (orders s1) (draws e) = Some n \<and>
           r = \<lparr>status = 201,
                payload = Entity ((newOrderRow u data lead (orderAssignee u body) n)
                                   (''id'' \<mapsto> JStr (newOrderId e)))\<rparr> \<and>
           orders s' = orders s1 @ [(newOrderRow u data lead (orderAssignee u body) n)
                                      (''id'' \<mapsto> JStr (newOrderId e))] \<and>
           payments s' = payments (initialPayment e u data s1) \<and>
           leads s' = row_update (leads s1) leadId [''status'' \<mapsto> JStr ''CONVERTED''] \<and>
           users s' = users s1 \<and> rateLimits s' = rateLimits s1"
proof -
  let ?asg = "orderAssignee u body"
  obtain n where n: "pickOrderNumber (orders s1) (draws e) = Some n"
    using assms(1) by (cases "pickOrderNumber (orders s1) (draws e)")
      (simp_all add: orders_POST_convert_def)
  let ?row = "newOrderRow u data lead ?asg n"
  let ?order = "?row(''id'' \<mapsto> JStr (newOrderId e))"
  let ?s2 = "s1\<lparr>orders := orders s1 @ [?order]\<rparr>"
  have created: "order_create e s1 ?row = Inr (?order, ?s2)"
  proof (cases "order_create e s1 ?row")
    case (Inl err)
    then have "r = catch_zod err"
      using assms(1) n by (simp add: orders_POST_convert_def)
    then show ?thesis using assms(2) by simp
  next
    case (Inr os)
    then show ?thesis
      by (auto simp: order_create_def Let_def split: if_splits)
  qed
  let ?s4 = "markConverted leadId (initialPayment e u data ?s2)"
  let ?a = "\<lparr>al_userId = su_id u, al_action = ''CREATE'',
               al_entityType = ''Order'', al_entityId = newOrderId e,
               al_changes = Created (data(''orderNumber'' \<mapsto> JStr n)),
               al_ipAddress = clientIp req, al_userAgent = agent req\<rparr>"
  obtain s5 where s5: "createAuditLog e ?s4 ?a = Inr s5"
    using createAuditLog_cases [of e ?s4 ?a] by auto
  have f1: "leads s5 = leads ?s4 \<and> orders s5 = orders ?s4 \<and> payments s5 = payments ?s4"
    using s5 by (rule createAuditLog_frame)
  have f2: "users s5 = users ?s4 \<and> rateLimits s5 = rateLimits ?s4"
    using s5 by (rule createAuditLog_frame2)
  have res: "r = \<lparr>status = 201, payload = Entity ?order\<rparr>"
    and s': "s' = orderCreated_notify e u ?asg s5"
    using assms(1) n created s5 by (simp_all add: orders_POST_convert_def Let_def)
  have ip: "orders (initialPayment e u data s) = orders s"
    "leads (initialPayment e u data s) = leads s"
    "users (initialPayment e u data s) = users s"
    "rateLimits (initialPayment e u data s) = rateLimits s"
    "payments (initialPayment e u data (s\<lparr>orders := x\<rparr>)) = payments (initialPayment e u data s)"
    for s x
    by (simp_all add: initialPayment_def)
  show ?thesis
    using n res f1 f2
    by (intro exI [of _ n]) (simp add: s' markConverted_def ip)
qed

lemma orderSchema_parse_fields:
  assumes "orderSchema_parse body = Some data"
  shows "data ''leadId'' = body ''leadId'' \<and> data ''receivedAmount'' = body ''receivedAmount'' \<and>
         data ''status'' = None \<and> data ''id'' = None \<and> data ''orderNumber'' = None \<and>
         (\<exists>amount. body ''receivedAmount'' = Some (JNum amount) \<and> 0 \<le> amount)"
proof -
  have ok: "orderSchema_ok body" and d: "data = body |` set orderSchema_keys"
    using assms by (simp_all add: orderSchema_parse_def split: if_splits)
  have "isNumberMin0 (body ''receivedAmount'')"
    using ok by (simp add: orderSchema_ok_def)
  then have "\<exists>amount. body ''receivedAmount'' = Some (JNum amount) \<and> 0 \<le> amount"
    by (cases "body ''receivedAmount''" rule: isNumberMin0.cases) simp_all
  then show ?thesis
    by (simp add: d orderSchema_keys_def restrict_map_def)
qed

lemma orders_POST_success:
  assumes "orders_POST e s req = Some (r, s')" and "status r = 201"
  shows "\<exists>u s1 body data leadId lead.
           sessionUser req = Some u \<and> rateLimitIp e s req = (True, s1) \<and>
           jsonBody req = Some body \<and> orderSchema_parse body = Some data \<and>
           data ''leadId'' = Some (JStr leadId) \<and>
           row_findUnique (leads s) ''id'' leadId = Some lead \<and>
           orders_POST_convert e s1 req u body data leadId lead = Some (r, s')"
proof -
  obtain ok s1 where rl: "rateLimitIp e s req = (ok, s1)"
    by (cases "rateLimitIp e s req")
  have l: "leads s1 = leads s"
    using rateLimitIp_tables [OF rl] by simp
  have [simp]: "status (notFound what) \<noteq> 201" for what
    by (simp add: notFound_def)
  have [simp]: "status unauthorized \<noteq> 201" "status tooManyRequests \<noteq> 201"
    by (simp_all add: unauthorized_def tooManyRequests_def)
  show ?thesis
    using assms rl l
    by (auto simp: orders_POST_def split: option.splits if_splits json.splits)
qed


lemma newOrderRow_columns:
  "newOrderRow u data lead asg n ''leadId'' = Some (the (data ''leadId''))"
  "newOrderRow u data lead asg n ''status'' = Some (JStr ''PENDING'')"
  "newOrderRow u data lead asg n ''patientName'' = lead ''name''"
  "newOrderRow u data lead asg n ''orderNumber'' = Some (JStr n)"
  "newOrderRow u data lead asg n ''assignedTo'' = asg"
  by (simp_all add: newOrderRow_def)

text \<open>
  The handler returns, with 201, as soon as the request passes the checks, one of the
  readings supplied gives a free number and the store accepts the row.
\<close>

lemma orders_POST_convert_returns:
  assumes "pickOrderNumber (orders s1) (draws e) = Some n"
    and "row_findUnique (orders s1) ''id'' (newOrderId e) = None"
    and "isString (orderAssignee u body)"
  shows "\<exists>r s'. orders_POST_convert e s1 req u body data leadId lead = Some (r, s') \<and>
                 status r = 201"
proof -
  let ?asg = "orderAssignee u body"
  let ?row = "newOrderRow u data lead ?asg n"
  let ?order = "?row(''id'' \<mapsto> JStr (newOrderId e))"
  let ?s2 = "s1\<lparr>orders := orders s1 @ [?order]\<rparr>"
  have str: "isString (?row ''assignedTo'')"
    using assms(3) by (simp only: newOrderRow_columns)
  have created: "order_create e s1 ?row = Inr (?order, ?s2)"
    using assms(2) str by (simp add: order_create_def Let_def)
  let ?s4 = "markConverted leadId (initialPayment e u data ?s2)"
  let ?a = "\<lparr>al_userId = su_id u, al_action = ''CREATE'',
               al_entityType = ''Order'', al_entityId = newOrderId e,
               al_changes = Created (data(''orderNumber'' \<mapsto> JStr n)),
               al_ipAddress = clientIp req, al_userAgent = agent req\<rparr>"
  obtain s5 where s5: "createAuditLog e ?s4 ?a = Inr s5"
    using createAuditLog_cases [of e ?s4 ?a] by auto
  show ?thesis
    using assms(1) created s5 by (simp add: orders_POST_convert_def Let_def)
qed

lemma orders_POST_returns:
  assumes "sessionUser req = Some u" and "rateLimitIp e s req = (True, s1)"
    and "jsonBody req = Some body" and "orderSchema_ok body"
    and "body ''leadId'' = Some (JStr leadId)"
    and "row_findUnique (leads s) ''id'' leadId = Some lead"
    and "pickOrderNumber (orders s) (draws e) = Some n"
    and "row_findUnique (orders s) ''id'' (newOrderId e) = None"
    and "isString (orderAssignee u body)"
  shows "\<exists>r s'. orders_POST e s req = Some (r, s') \<and> status r = 201"
proof -
  have tabs: "leads s1 = leads s" "orders s1 = orders s"
    using rateLimitIp_tables [OF assms(2)] by simp_all
  have data: "orderSchema_parse body = Some (body |` set orderSchema_keys)"
    using assms(4) by (simp add: orderSchema_parse_def)
  have lid: "(body |` set orderSchema_keys) ''leadId'' = Some (JStr leadId)"
    using assms(5) by (simp add: orderSchema_keys_def)
  have "orders_POST e s req
          = orders_POST_convert e s1 req u body (body |` set orderSchema_keys) leadId lead"
    using assms(1,2,3,6) data lid by (simp add: orders_POST_def tabs)
  then show ?thesis
    using orders_POST_convert_returns [of s1 e n u body req "body |` set orderSchema_keys" leadId lead]
      assms(7,8,9)
    by (simp add: tabs)
qed

text \<open>
  C5. A successful conversion (answer 201) has appended exactly one Order, which
  references the Lead of the request, has status PENDING and carries the Lead's name as
  its patient name; the Lead is then stored with status CONVERTED; and exactly one
  Payment has been appended, of type INITIAL, for the new order and of the supplied
  received amount, when that amount is above 0, and none otherwise.
\<close>

theorem orders_POST_conversion:
  assumes "orders_POST e s req = Some (r, s')" and "status r = 201"
  shows "\<exists>body leadId lead amount order.
           jsonBody req = Some body \<and>
           body ''leadId'' = Some (JStr leadId) \<and>
           body ''receivedAmount'' = Some (JNum amount) \<and>
           row_findUnique (leads s) ''id'' leadId = Some lead \<and>
           payload r = Entity order \<and>
           orders s' = orders s @ [order] \<and>
           order ''leadId'' = Some (JStr leadId) \<and>
           order ''status'' = Some (JStr ''PENDING'') \<and>
           order ''patientName'' = lead ''name'' \<and>
           row_findUnique (leads s') ''id'' leadId = Some (lead(''status'' \<mapsto> JStr ''CONVERTED'')) \<and>
           (if 0 < amount
            then \<exists>p. payments s' = payments s @ [p] \<and>
                     pay_paymentType p = INITIAL \<and> pay_amount p = amount \<and>
                     order ''id'' = Some (JStr (pay_orderId p))
            else payments s' = payments s)"
proof -
  obtain u s1 body data leadId lead where
    rl: "rateLimitIp e s req = (True, s1)" and
    body: "jsonBody req = Some body" and
    data: "orderSchema_parse body = Some data" and
    lid: "data ''leadId'' = Some (JStr leadId)" and
    lead: "row_findUnique (leads s) ''id'' leadId = Some lead" and
    conv: "orders_POST_convert e s1 req u body data leadId lead = Some (r, s')"
    using orders_POST_success [OF assms] by blast
  have tabs: "leads s1 = leads s" "orders s1 = orders s" "payments s1 = payments s"
    using rateLimitIp_tables [OF rl] by simp_all
  obtain amount where
    f: "data ''leadId'' = body ''leadId''" "data ''receivedAmount'' = body ''receivedAmount''" and
    amount: "body ''receivedAmount'' = Some (JNum amount)"
    using orderSchema_parse_fields [OF data] by blast
  define asg where "asg = orderAssignee u body"
  obtain n where
    res: "r = \<lparr>status = 201,
               payload = Entity ((newOrderRow u data lead asg n)(''id'' \<mapsto> JStr (newOrderId e)))\<rparr>" and
    ord: "orders s' = orders s1 @ [(newOrderRow u data lead asg n)(''id'' \<mapsto> JStr (newOrderId e))]" and
    pay: "payments s' = payments (initialPayment e u data s1)" and
    lds: "leads s' = row_update (leads s1) leadId [''status'' \<mapsto> JStr ''CONVERTED'']"
    using orders_POST_convert_success [OF conv assms(2)] unfolding asg_def by blast
  let ?order = "(newOrderRow u data lead asg n)(''id'' \<mapsto> JStr (newOrderId e))"
  have cols: "?order ''leadId'' = Some (JStr leadId)" "?order ''status'' = Some (JStr ''PENDING'')"
    "?order ''patientName'' = lead ''name''" "?order ''id'' = Some (JStr (newOrderId e))"
    using lid by (simp_all add: newOrderRow_columns)
  have conv_lead: "row_findUnique (leads s') ''id'' leadId
                     = Some (lead(''status'' \<mapsto> JStr ''CONVERTED''))"
    using row_update_findUnique [OF lead, of "[''status'' \<mapsto> JStr ''CONVERTED'']"]
    by (simp add: lds tabs)
  have pays: "if 0 < amount
              then \<exists>p. payments s' = payments s @ [p] \<and>
                       pay_paymentType p = INITIAL \<and> pay_amount p = amount \<and>
                       ?order ''id'' = Some (JStr (pay_orderId p))
              else payments s' = payments s"
    using amount f(2) by (simp add: pay tabs initialPayment_def)
  have "payload r = Entity ?order" by (simp add: res)
  moreover have "orders s' = orders s @ [?order]" by (simp add: ord tabs)
  moreover have "body ''leadId'' = Some (JStr leadId)" using lid f(1) by simp
  ultimately show ?thesis
    using body amount lead cols(1-3) conv_lead pays by blast
qed

text \<open>
  C6. Two orders created one after the other carry different order numbers, whatever
  the clock and the random draws were (also when every reading shows the same
  millisecond): the number of the second is the first candidate of the retry loop that
  no stored order carries, and the first order is stored by then.
\<close>

theorem orders_POST_distinct_orderNumbers:
  assumes "orders_POST e1 s0 req1 = Some (r1, s1)" and "status r1 = 201"
    and "orders_POST e2 s1 req2 = Some (r2, s2)" and "status r2 = 201"
  shows "\<exists>o1 o2 n1 n2.
           payload r1 = Entity o1 \<and> payload r2 = Entity o2 \<and>
           o1 ''orderNumber'' = Some (JStr n1) \<and> o2 ''orderNumber'' = Some (JStr n2) \<and>
           n1 \<noteq> n2 \<and>
           pickOrderNumber (orders s1) (draws e2) = Some n2 \<and>
           (\<forall>ord \<in> set (orders s1). ord ''orderNumber'' \<noteq> Some (JStr n2))"
proof -
  obtain u s0' body data leadId lead where
    rl: "rateLimitIp e1 s0 req1 = (True, s0')" and
    conv: "orders_POST_convert e1 s0' req1 u body data leadId lead = Some (r1, s1)"
    using orders_POST_success [OF assms(1,2)] by blast
  define asg where "asg = orderAssignee u body"
  obtain n1 where
    res1: "r1 = \<lparr>status = 201,
               payload = Entity ((newOrderRow u data lead asg n1)(''id'' \<mapsto> JStr (newOrderId e1)))\<rparr>" and
    ord1: "orders s1 = orders s0' @ [(newOrderRow u data lead asg n1)(''id'' \<mapsto> JStr (newOrderId e1))]"
    using orders_POST_convert_success [OF conv assms(2)] unfolding asg_def by blast
  let ?o1 = "(newOrderRow u data lead asg n1)(''id'' \<mapsto> JStr (newOrderId e1))"
  obtain u' s1' body' data' leadId' lead' where
    rl': "rateLimitIp e2 s1 req2 = (True, s1')" and
    conv': "orders_POST_convert e2 s1' req2 u' body' data' leadId' lead' = Some (r2, s2)"
    using orders_POST_success [OF assms(3,4)] by blast
  have tabs: "orders s1' = orders s1"
    using rateLimitIp_tables [OF rl'] by simp
  define asg' where "asg' = orderAssignee u' body'"
  obtain n2 where
    pick: "pickOrderNumber (orders s1') (draws e2) = Some n2" and
    res2: "r2 = \<lparr>status = 201,
               payload = Entity ((newOrderRow u' data' lead' asg' n2)(''id'' \<mapsto> JStr (newOrderId e2)))\<rparr>"
    using orders_POST_convert_success [OF conv' assms(4)] unfolding asg'_def by blast
  let ?o2 = "(newOrderRow u' data' lead' asg' n2)(''id'' \<mapsto> JStr (newOrderId e2))"
  have free: "\<forall>ord \<in> set (orders s1). ord ''orderNumber'' \<noteq> Some (JStr n2)"
    using pickOrderNumber_free [OF pick] by (simp add: tabs row_findUnique_None)
  have n1: "?o1 ''orderNumber'' = Some (JStr n1)" and n2: "?o2 ''orderNumber'' = Some (JStr n2)"
    by (simp_all add: newOrderRow_columns)
  have "?o1 \<in> set (orders s1)" by (simp add: ord1)
  then have "n1 \<noteq> n2"
    using free n1 by auto
  moreover have "payload r1 = Entity ?o1" "payload r2 = Entity ?o2"
    by (simp_all add: res1 res2)
  ultimately show ?thesis
    using n1 n2 pick free unfolding tabs by blast
qed

section \<open>Order creation: the example scenario\<close>

lemma toString_examples:
  "toString 1700000000123 = ''1700000000123''" "toString 7 = ''7''" "toString 8 = ''8''"
  "toString 9 = ''9''"
  by (simp_all add: toString.simps)

lemma generateOrderNumber_examples:
  "generateOrderNumber 1700000000123 7 = ''G000123007''"
  "generateOrderNumber 1700000000123 8 = ''G000123008''"
  "generateOrderNumber 1700000000123 9 = ''G000123009''"
  by (simp_all add: generateOrderNumber_def toString_examples slice_last_def padStart_def
        numeral_2_eq_2)

lemma orders_POST_example_returns:
  "su_role \<lparr>su_id = uid, su_role = EMPLOYEE\<rparr> = EMPLOYEE \<Longrightarrow> uid \<noteq> [] \<Longrightarrow>
   \<exists>r s'. orders_POST env0 store0 (request_by uid EMPLOYEE [] convertBody) = Some (r, s') \<and>
           status r = 201"
proof -
  assume uid: "uid \<noteq> []"
  let ?req = "request_by uid EMPLOYEE [] convertBody"
  let ?u = "\<lparr>su_id = uid, su_role = EMPLOYEE\<rparr>"
  have a: "sessionUser ?req = Some ?u"
    using uid by (simp add: sessionUser_def request_by_def)
  have b: "rateLimitIp env0 store0 ?req
             = (True, store0\<lparr>rateLimits :=
                  [''10.0.0.1'' \<mapsto> \<lparr>count = 1, resetTime = 1700000900123\<rparr>]\<rparr>)"
    by (simp add: prelude_defs example_data)
  have c: "jsonBody ?req = Some convertBody"
    by (simp add: request_by_def)
  have d: "orderSchema_ok convertBody"
    by (simp add: orderSchema_ok_def orderSchema_optStrings_def convertBody_def)
  have f: "convertBody ''leadId'' = Some (JStr ''l1'')"
    by (simp add: convertBody_def)
  have g: "row_findUnique (leads store0) ''id'' ''l1'' = Some lead1"
    by (simp add: row_findUnique_def store0_def lead1_def)
  have h: "pickOrderNumber (orders store0) (draws env0) = Some ''G000123008''"
    by (simp add: generateOrderNumber_examples row_findUnique_def store0_def order1_def env0_def)
  have i: "row_findUnique (orders store0) ''id'' (newOrderId env0) = None"
    by (simp add: row_findUnique_def store0_def order1_def env0_def)
  have j: "isString (orderAssignee ?u convertBody)"
    by (simp add: orderAssignee_def)
  show ?thesis
    using orders_POST_returns [OF a b c d f g h i j] .
qed

theorem orders_POST_conversion_witness:
  "\<exists>r s'. orders_POST env0 store0 (request_by ''e1'' EMPLOYEE [] convertBody) = Some (r, s') \<and>
           status r = 201 \<and>
           (\<exists>order. orders s' = [order1, order] \<and> payload r = Entity order \<and>
                     order ''leadId'' = Some (JStr ''l1'') \<and>
                     order ''status'' = Some (JStr ''PENDING'') \<and>
                     order ''patientName'' = Some (JStr ''A'')) \<and>
           row_findUnique (leads s') ''id'' ''l1'' = Some (lead1(''status'' \<mapsto> JStr ''CONVERTED'')) \<and>
           (\<exists>p. payments s' = [p] \<and> pay_paymentType p = INITIAL \<and> pay_amount p = 2000)"
proof -
  let ?req = "request_by ''e1'' EMPLOYEE [] convertBody"
  obtain r s' where run: "orders_POST env0 store0 ?req = Some (r, s')" and ok: "status r = 201"
    using orders_POST_example_returns [of "''e1''"] by auto
  obtain body leadId lead amount order where
    c: "jsonBody ?req = Some body" "body ''leadId'' = Some (JStr leadId)"
       "body ''receivedAmount'' = Some (JNum amount)"
       "row_findUnique (leads store0) ''id'' leadId = Some lead"
       "payload r = Entity order" "orders s' = orders store0 @ [order]"
       "order ''leadId'' = Some (JStr leadId)" "order ''status'' = Some (JStr ''PENDING'')"
       "order ''patientName'' = lead ''name''"
       "row_findUnique (leads s') ''id'' leadId = Some (lead(''status'' \<mapsto> JStr ''CONVERTED''))"
       "if 0 < amount
        then \<exists>p. payments s' = payments store0 @ [p] \<and>
                 pay_paymentType p = INITIAL \<and> pay_amount p = amount \<and>
                 order ''id'' = Some (JStr (pay_orderId p))
        else payments s' = payments store0"
    using orders_POST_conversion [OF run ok] by blast
  have body: "body = convertBody"
    using c(1) by (simp add: request_by_def)
  have lid: "leadId = ''l1''" and amt: "amount = 2000"
    using c(2,3) by (simp_all add: body convertBody_def)
  have lead: "lead = lead1"
    using c(4) by (simp add: lid row_findUnique_def store0_def lead1_def)
  have name: "lead1 ''name'' = Some (JStr ''A'')"
    by (simp add: lead1_def)
  have st: "orders store0 = [order1]" "payments store0 = []"
    by (simp_all add: store0_def)
  have "\<exists>p. payments s' = [p] \<and> pay_paymentType p = INITIAL \<and> pay_amount p = 2000"
    using c(11) by (auto simp: amt st)
  moreover have "\<exists>order. orders s' = [order1, order] \<and> payload r = Entity order \<and>
                     order ''leadId'' = Some (JStr ''l1'') \<and>
                     order ''status'' = Some (JStr ''PENDING'') \<and>
                     order ''patientName'' = Some (JStr ''A'')"
    using c(5,6,7,8,9) by (simp add: lid lead name st)
  moreover have "row_findUnique (leads s') ''id'' ''l1'' = Some (lead1(''status'' \<mapsto> JStr ''CONVERTED''))"
    using c(10) by (simp add: lid lead)
  ultimately show ?thesis
    using run ok by blast
qed

theorem orders_POST_distinct_orderNumbers_witness:
  "map fst (draws env0 @ draws env1)
     = [1700000000123, 1700000000123, 1700000000123, 1700000000123] \<and>
   (\<exists>r1 s1 r2 s2 o1 o2.
      orders_POST env0 store0 (request_by ''e1'' EMPLOYEE [] convertBody) = Some (r1, s1) \<and>
      status r1 = 201 \<and>
      orders_POST env1 s1 (request_by ''e1'' EMPLOYEE [] convertBody2) = Some (r2, s2) \<and>
      status r2 = 201 \<and>
      payload r1 = Entity o1 \<and> payload r2 = Entity o2 \<and>
      o1 ''orderNumber'' \<noteq> o2 ''orderNumber'')"
proof -
  let ?req1 = "request_by ''e1'' EMPLOYEE [] convertBody"
  let ?req2 = "request_by ''e1'' EMPLOYEE [] convertBody2"
  let ?u = "\<lparr>su_id = ''e1'', su_role = EMPLOYEE\<rparr>"
  have same_ms: "map fst (draws env0 @ draws env1)
                   = [1700000000123, 1700000000123, 1700000000123, 1700000000123]"
    by (simp add: env0_def env1_def)
  obtain r1 s1 where run1: "orders_POST env0 store0 ?req1 = Some (r1, s1)" and ok1: "status r1 = 201"
    using orders_POST_example_returns [of "''e1''"] by auto
  \<comment> \<open>the store after the first creation\<close>
  obtain u s0' body data leadId lead where
    rl: "rateLimitIp env0 store0 ?req1 = (True, s0')" and
    data: "orderSchema_parse body = Some data" and
    lid: "data ''leadId'' = Some (JStr leadId)" and
    body: "jsonBody ?req1 = Some body" and
    conv: "orders_POST_convert env0 s0' ?req1 u body data leadId lead = Some (r1, s1)"
    using orders_POST_success [OF run1 ok1] by blast
  have s0': "s0' = store0\<lparr>rateLimits :=
                      [''10.0.0.1'' \<mapsto> \<lparr>count = 1, resetTime = 1700000900123\<rparr>]\<rparr>"
    using rl by (simp add: prelude_defs example_data)
  have bd: "body = convertBody"
    using body by (simp add: request_by_def)
  have l1: "leadId = ''l1''"
    using lid orderSchema_parse_fields [OF data] by (simp add: bd convertBody_def)
  obtain n1 where
    pick1: "pickOrderNumber (orders s0') (draws env0) = Some n1" and
    ord1: "orders s1 = orders s0' @ [(newOrderRow u data lead (orderAssignee u body) n1)
                                       (''id'' \<mapsto> JStr (newOrderId env0))]" and
    lds1: "leads s1 = row_update (leads s0') leadId [''status'' \<mapsto> JStr ''CONVERTED'']" and
    rls1: "rateLimits s1 = rateLimits s0'"
    using orders_POST_convert_success [OF conv ok1] by blast
  let ?o1 = "(newOrderRow u data lead (orderAssignee u body) n1)(''id'' \<mapsto> JStr (newOrderId env0))"
  have n1: "n1 = ''G000123008''"
    using pick1
    by (simp add: s0' generateOrderNumber_examples row_findUnique_def store0_def order1_def env0_def)
  have o1: "?o1 ''orderNumber'' = Some (JStr ''G000123008'')" "?o1 ''id'' = Some (JStr ''o2'')"
    by (simp_all add: newOrderRow_columns n1 env0_def)
  have orders1: "orders s1 = [order1, ?o1]"
    by (simp add: ord1 s0' store0_def)
  \<comment> \<open>the second creation, in the same millisecond, first drawing the number just used\<close>
  have a: "sessionUser ?req2 = Some ?u"
    by (simp add: sessionUser_def request_by_def)
  have "fst (rateLimitIp env1 s1 ?req2)"
    by (simp add: prelude_defs rls1 s0' env1_def env0_def request_by_def)
  then obtain s1' where b: "rateLimitIp env1 s1 ?req2 = (True, s1')"
    by (cases "rateLimitIp env1 s1 ?req2") simp
  have c: "jsonBody ?req2 = Some convertBody2"
    by (simp add: request_by_def)
  have d: "orderSchema_ok convertBody2"
    by (simp add: orderSchema_ok_def orderSchema_optStrings_def convertBody2_def)
  have f: "convertBody2 ''leadId'' = Some (JStr ''l2'')"
    by (simp add: convertBody2_def)
  have g: "row_findUnique (leads s1) ''id'' ''l2'' = Some lead2"
    by (simp add: lds1 l1 s0' row_findUnique_def row_update_def store0_def lead1_def lead2_def)
  have h: "pickOrderNumber (orders s1) (draws env1) = Some ''G000123009''"
    using o1(1)
    by (simp add: orders1 env1_def generateOrderNumber_examples row_findUnique_def order1_def)
  have i: "row_findUnique (orders s1) ''id'' (newOrderId env1) = None"
    using o1(2) by (simp add: orders1 env1_def row_findUnique_def order1_def)
  have j: "isString (orderAssignee ?u convertBody2)"
    by (simp add: orderAssignee_def)
  obtain r2 s2 where run2: "orders_POST env1 s1 ?req2 = Some (r2, s2)" and ok2: "status r2 = 201"
    using orders_POST_returns [OF a b c d f g h i j] by blast
  obtain o1 o2 n1' n2' where
    res: "payload r1 = Entity o1" "payload r2 = Entity o2"
         "o1 ''orderNumber'' = Some (JStr n1')" "o2 ''orderNumber'' = Some (JStr n2')" "n1' \<noteq> n2'"
    using orders_POST_distinct_orderNumbers [OF run1 ok1 run2 ok2] by blast
  have diff: "o1 ''orderNumber'' \<noteq> o2 ''orderNumber''"
    using res(3,4,5) by simp
  have "\<exists>r1 s1 r2 s2 o1 o2.
      orders_POST env0 store0 ?req1 = Some (r1, s1) \<and> status r1 = 201 \<and>
      orders_POST env1 s1 ?req2 = Some (r2, s2) \<and> status r2 = 201 \<and>
      payload r1 = Entity o1 \<and> payload r2 = Entity o2 \<and>
      o1 ''orderNumber'' \<noteq> o2 ''orderNumber''"
  proof (intro exI conjI)
    show "orders_POST env0 store0 ?req1 = Some (r1, s1)" by (rule run1)
    show "status r1 = 201" by (rule ok1)
    show "orders_POST env1 s1 ?req2 = Some (r2, s2)" by (rule run2)
    show "status r2 = 201" by (rule ok2)
    show "payload r1 = Entity o1" by (rule res(1))
    show "payload r2 = Entity o2" by (rule res(2))
    show "o1 ''orderNumber'' \<noteq> o2 ''orderNumber''" by (rule diff)
  qed
  with same_ms show ?thesis by (intro conjI)
qed

text \<open>
  The sibling handlers refuse an employee a lead, or an order, that is not assigned to
  it.
\<close>

lemma leads_PATCH_foreign_forbidden:
  assumes "sessionUser req = Some u" and "su_role u = EMPLOYEE"
    and "rateLimitIp e s req = (True, s1)"
    and "row_findUnique (leads s) ''id'' (paramId req) = Some l"
    and "l ''assignedTo'' \<noteq> Some (JStr (su_id u))"
  shows "leads_PATCH e s req = (forbidden, s1)"
proof -
  have "leads s1 = leads s"
    using rateLimitIp_tables [OF assms(3)] by simp
  then show ?thesis
    using assms by (simp add: leads_PATCH_def)
qed

lemma orders_PATCH_foreign_forbidden:
  assumes "sessionUser req = Some u" and "su_role u = EMPLOYEE"
    and "rateLimitIp e s req = (True, s1)"
    and "row_findUnique (orders s) ''id'' (paramId req) = Some ord"
    and "ord ''assignedTo'' \<noteq> Some (JStr (su_id u))"
  shows "orders_PATCH e s req = (forbidden, s1)"
proof -
  have "orders s1 = orders s"
    using rateLimitIp_tables [OF assms(3)] by simp
  then show ?thesis
    using assms by (simp add: orders_PATCH_def)
qed

text \<open>
  C1. The claim does not hold of the handler: it looks the Lead up and answers 404 when
  there is none, but never compares the Lead's assignee with the session user. Here
  employee \<open>e2\<close> converts the lead of employee \<open>e1\<close>: the answer is 201, the
  Order exists, assigned to \<open>e2\<close>, and the Lead is CONVERTED; the lead update
  handler answers Forbidden to the same user for the same lead.
\<close>

theorem orders_POST_foreign_lead:
  "lead1 ''assignedTo'' = Some (JStr ''e1'') \<and>
   fst (leads_PATCH env0 store0 (request_by ''e2'' EMPLOYEE ''l1'' convertBody)) = forbidden \<and>
   (\<exists>r s' order.
      orders_POST env0 store0 (request_by ''e2'' EMPLOYEE [] convertBody) = Some (r, s') \<and>
      status r = 201 \<and> orders s' = orders store0 @ [order] \<and>
      order ''leadId'' = Some (JStr ''l1'') \<and>
      order ''assignedTo'' = Some (JStr ''e2'') \<and>
      map (\<lambda>l. l ''status'') (leads s') = [Some (JStr ''CONVERTED''), Some (JStr ''CONVERTED'')])"
proof -
  let ?req = "request_by ''e2'' EMPLOYEE [] convertBody"
  let ?u = "\<lparr>su_id = ''e2'', su_role = EMPLOYEE\<rparr>"
  have own: "lead1 ''assignedTo'' = Some (JStr ''e1'')"
    by (simp add: lead1_def)
  have sib: "fst (leads_PATCH env0 store0 (request_by ''e2'' EMPLOYEE ''l1'' convertBody)) = forbidden"
  proof -
    let ?r = "request_by ''e2'' EMPLOYEE ''l1'' convertBody"
    have "leads_PATCH env0 store0 ?r
            = (forbidden, store0\<lparr>rateLimits :=
                 [''10.0.0.1'' \<mapsto> \<lparr>count = 1, resetTime = 1700000900123\<rparr>]\<rparr>)"
    proof (rule leads_PATCH_foreign_forbidden)
      show "sessionUser ?r = Some ?u" by (simp add: sessionUser_def request_by_def)
      show "su_role ?u = EMPLOYEE" by simp
      show "rateLimitIp env0 store0 ?r
              = (True, store0\<lparr>rateLimits :=
                   [''10.0.0.1'' \<mapsto> \<lparr>count = 1, resetTime = 1700000900123\<rparr>]\<rparr>)"
        by (simp add: prelude_defs example_data)
      show "row_findUnique (leads store0) ''id'' (paramId ?r) = Some lead1"
        by (simp add: row_findUnique_def store0_def lead1_def request_by_def)
      show "lead1 ''assignedTo'' \<noteq> Some (JStr (su_id ?u))"
        by (simp add: lead1_def)
    qed
    then show ?thesis by simp
  qed
  obtain r s' where run: "orders_POST env0 store0 ?req = Some (r, s')" and ok: "status r = 201"
    using orders_POST_example_returns [of "''e2''"] by auto
  obtain u s1 body data leadId lead where
    su: "sessionUser ?req = Some u" and
    rl: "rateLimitIp env0 store0 ?req = (True, s1)" and
    body: "jsonBody ?req = Some body" and
    data: "orderSchema_parse body = Some data" and
    lid: "data ''leadId'' = Some (JStr leadId)" and
    conv: "orders_POST_convert env0 s1 ?req u body data leadId lead = Some (r, s')"
    using orders_POST_success [OF run ok] by blast
  have tabs: "orders s1 = orders store0" "leads s1 = leads store0"
    using rateLimitIp_tables [OF rl] by simp_all
  have u: "u = ?u"
    using su by (simp add: sessionUser_def request_by_def)
  have b: "body = convertBody"
    using body by (simp add: request_by_def)
  have l1: "leadId = ''l1''"
    using lid orderSchema_parse_fields [OF data] by (simp add: b convertBody_def)
  obtain n where
    ord: "orders s' = orders s1 @ [(newOrderRow u data lead (orderAssignee u body) n)
                                     (''id'' \<mapsto> JStr (newOrderId env0))]" and
    lds: "leads s' = row_update (leads s1) leadId [''status'' \<mapsto> JStr ''CONVERTED'']"
    using orders_POST_convert_success [OF conv ok] by blast
  let ?order = "(newOrderRow u data lead (orderAssignee u body) n)(''id'' \<mapsto> JStr (newOrderId env0))"
  have asg: "?order ''assignedTo'' = Some (JStr ''e2'')"
    by (simp add: newOrderRow_columns orderAssignee_def u)
  have lead: "?order ''leadId'' = Some (JStr ''l1'')"
    using lid by (simp add: newOrderRow_columns l1)
  have conv_leads: "map (\<lambda>l. l ''status'') (leads s')
                      = [Some (JStr ''CONVERTED''), Some (JStr ''CONVERTED'')]"
    by (simp add: lds tabs l1 row_update_def store0_def lead1_def lead2_def)
  have stored: "orders s' = orders store0 @ [?order]"
    by (simp add: ord tabs)
  have "\<exists>r s' order.
      orders_POST env0 store0 (request_by ''e2'' EMPLOYEE [] convertBody) = Some (r, s') \<and>
      status r = 201 \<and> orders s' = orders store0 @ [order] \<and>
      order ''leadId'' = Some (JStr ''l1'') \<and>
      order ''assignedTo'' = Some (JStr ''e2'') \<and>
      map (\<lambda>l. l ''status'') (leads s') = [Some (JStr ''CONVERTED''), Some (JStr ''CONVERTED'')]"
  proof (intro exI conjI)
    show "orders_POST env0 store0 ?req = Some (r, s')" by (rule run)
    show "status r = 201" by (rule ok)
    show "orders s' = orders store0 @ [?order]" by (rule stored)
    show "?order ''leadId'' = Some (JStr ''l1'')" by (rule lead)
    show "?order ''assignedTo'' = Some (JStr ''e2'')" by (rule asg)
    show "map (\<lambda>l. l ''status'') (leads s')
            = [Some (JStr ''CONVERTED''), Some (JStr ''CONVERTED'')]" by (rule conv_leads)
  qed
  with own sib show ?thesis by (intro conjI)
qed

section \<open>Lead listing: properties\<close>

lemma skipTake_subset:
  assumes "skipTake sk tk rows = Some data"
  shows "set data \<subseteq> set rows"
proof -
  have sub: "set (take n (drop m xs)) \<subseteq> set xs" for n m and xs :: "row list"
    using set_take_subset [of n "drop m xs"] set_drop_subset [of m xs] by blast
  have nonneg: "\<not> sk < 0"
    using assms by (simp add: skipTake_def split: if_splits)
  show ?thesis
  proof (cases "0 \<le> tk")
    case True
    then have "data = take (nat tk) (drop (nat sk) rows)"
      using assms nonneg by (simp add: skipTake_def)
    then show ?thesis using sub by simp
  next
    case False
    then have "data = rev (take (nat (- tk)) (drop (nat sk) (rev rows)))"
      using assms nonneg by (simp add: skipTake_def)
    then have "set data = set (take (nat (- tk)) (drop (nat sk) (rev rows)))"
      by simp
    also have "\<dots> \<subseteq> set (rev rows)" by (rule sub)
    finally show ?thesis by simp
  qed
qed

lemma newestFirst_set [simp]: "set (newestFirst rows) = set rows"
  by (simp add: newestFirst_def)

text \<open>Every row a listing returns is a lead that matches the \<open>where\<close> object.\<close>

lemma leads_listing_rows:
  assumes "fst (leads_listing mkWhere e s req) = \<lparr>status = 200, payload = Listing data pg\<rparr>"
  shows "\<exists>u. sessionUser req = Some u \<and>
             set data \<subseteq> {l \<in> set (leads s). lead_matches e (mkWhere e u req) l}"
proof -
  obtain ok s1 where rl: "rateLimitIp e s req = (ok, s1)"
    by (cases "rateLimitIp e s req")
  have l: "leads s1 = leads s"
    using rateLimitIp_tables [OF rl] by simp
  have [simp]: "unauthorized \<noteq> \<lparr>status = 200, payload = x\<rparr>"
    "tooManyRequests \<noteq> \<lparr>status = 200, payload = x\<rparr>"
    "internalError \<noteq> \<lparr>status = 200, payload = x\<rparr>" for x
    by (simp_all add: unauthorized_def tooManyRequests_def internalError_def)
  obtain u where u: "sessionUser req = Some u"
    using assms by (cases "sessionUser req") (simp_all add: leads_listing_def)
  have "\<exists>sk tk. skipTake sk tk (newestFirst (filter (lead_matches e (mkWhere e u req)) (leads s)))
                  = Some data"
    using assms u rl l
    by (auto simp: leads_listing_def Let_def split: option.splits if_splits prod.splits)
  then obtain sk tk where
    "skipTake sk tk (newestFirst (filter (lead_matches e (mkWhere e u req)) (leads s))) = Some data"
    by blast
  then have "set data \<subseteq> set (filter (lead_matches e (mkWhere e u req)) (leads s))"
    using skipTake_subset by fastforce
  then show ?thesis
    using u by auto
qed

text \<open>
  The copy of the route in \<open>src/unnamed/part_007\<close> keeps the promise: unless
  \<open>status=CONVERTED\<close> is asked for, no lead it returns has status CONVERTED.
\<close>

lemma leads_GET_part_007_omits_converted:
  assumes "param req ''status'' \<noteq> Some ''CONVERTED''"
    and "fst (leads_GET_part_007 e s req) = \<lparr>status = 200, payload = Listing data pg\<rparr>"
    and "l \<in> set data"
  shows "l ''status'' \<noteq> Some (JStr ''CONVERTED'')"
proof -
  obtain u where "set data \<subseteq> {l \<in> set (leads s). lead_matches e (leads_where_part_007 e u req) l}"
    using leads_listing_rows [of leads_where_part_007 e s req data pg] assms(2)
    by (auto simp: leads_GET_part_007_def)
  then have m: "lead_matches e (leads_where_part_007 e u req) l"
    using assms(3) by auto
  show ?thesis
  proof (cases "param req ''status''")
    case None
    then show ?thesis
      using m by (simp add: lead_matches_def leads_where_part_007_def)
  next
    case (Some st)
    then have "l ''status'' = Some (JStr st)"
      using m by (simp add: lead_matches_def leads_where_part_007_def)
    then show ?thesis
      using assms(1) Some by simp
  qed
qed

lemma listRequest_where:
  "leads_where env0 \<lparr>su_id = ''e1'', su_role = EMPLOYEE\<rparr> listRequest
     = \<lparr>w_assignedTo = Some ''e1'', w_status = None, w_priority = None, w_source = None,
        w_gte = None, w_lte = None, w_search = None\<rparr>"
  by (simp add: leads_where_def param_def listRequest_def)

lemma example_leads_match:
  "lead_matches env0 (leads_where env0 \<lparr>su_id = ''e1'', su_role = EMPLOYEE\<rparr> listRequest) lead1"
  "lead_matches env0 (leads_where env0 \<lparr>su_id = ''e1'', su_role = EMPLOYEE\<rparr> listRequest) lead2"
  by (simp_all add: listRequest_where lead_matches_def lead1_def lead2_def)

lemma example_newestFirst: "newestFirst [lead1, lead2] = [lead2, lead1]"
proof -
  have "createdAtOf lead1 = 1" "createdAtOf lead2 = 2"
    by (simp_all add: createdAtOf_def lead1_def lead2_def)
  then show ?thesis
    by (simp add: newestFirst_def)
qed

text \<open>
  C3. The claim does not hold of \<open>GET\<close> in \<open>src/app/api/leads/route.ts\<close>: with no
  \<open>status\<close> parameter its \<open>where\<close> object has no status condition, and the converted
  lead of the employee is listed. The other copy of the route, on the same store and
  request, lists only the lead that is not converted.
\<close>

theorem leads_GET_lists_converted:
  "param listRequest ''status'' = None \<and>
   lead2 ''status'' = Some (JStr ''CONVERTED'') \<and>
   fst (leads_GET env0 store0 listRequest)
     = \<lparr>status = 200,
        payload = Listing [lead2, lead1]
                    \<lparr>pg_page = 1, pg_limit = 20, pg_total = 2, pg_totalPages = Some 1\<rparr>\<rparr> \<and>
   fst (leads_GET_part_007 env0 store0 listRequest)
     = \<lparr>status = 200,
        payload = Listing [lead1]
                    \<lparr>pg_page = 1, pg_limit = 20, pg_total = 1, pg_totalPages = Some 1\<rparr>\<rparr>"
proof -
  let ?u = "\<lparr>su_id = ''e1'', su_role = EMPLOYEE\<rparr>"
  have p: "param listRequest ''status'' = None"
    by (simp add: param_def listRequest_def)
  have c: "lead2 ''status'' = Some (JStr ''CONVERTED'')"
    by (simp add: lead2_def)
  have su: "sessionUser listRequest = Some ?u"
    by (simp add: sessionUser_def listRequest_def)
  have rl: "rateLimitIp env0 store0 listRequest
              = (True, store0\<lparr>rateLimits :=
                   [''10.0.0.1'' \<mapsto> \<lparr>count = 1, resetTime = 1700000900123\<rparr>]\<rparr>)"
    by (simp add: prelude_defs store0_def env0_def listRequest_def)
  have pg: "intParam env0 listRequest ''page'' ''1'' = Some 1"
    "intParam env0 listRequest ''limit'' ''20'' = Some 20"
    by (simp_all add: intParam_def param_def listRequest_def env0_def)
  have valid: "\<not> leadWhere_invalid (leads_where env0 ?u listRequest)"
    by (simp add: listRequest_where leadWhere_invalid_def)
  have ls: "leads store0 = [lead1, lead2]"
    by (simp add: store0_def)
  have page: "skipTake 0 20 [lead2, lead1] = Some [lead2, lead1]"
    by (simp add: skipTake_def)
  have tp: "totalPages (length [lead1, lead2]) 20 = Some 1"
    by (simp add: totalPages_def)
  have named: "fst (leads_GET env0 store0 listRequest)
     = \<lparr>status = 200,
        payload = Listing [lead2, lead1]
                    \<lparr>pg_page = 1, pg_limit = 20, pg_total = 2, pg_totalPages = Some 1\<rparr>\<rparr>"
    using example_leads_match valid tp
    by (simp add: leads_GET_def leads_listing_def su rl pg ls example_newestFirst page Let_def)
  have w7: "leads_where_part_007 env0 ?u listRequest
              = \<lparr>w_assignedTo = Some ''e1'', w_status = Some (IsNot ''CONVERTED''),
                 w_priority = None, w_source = None,
                 w_gte = None, w_lte = None, w_search = None\<rparr>"
    by (simp add: leads_where_part_007_def listRequest_where p)
  have m7: "lead_matches env0 (leads_where_part_007 env0 ?u listRequest) lead1"
    "\<not> lead_matches env0 (leads_where_part_007 env0 ?u listRequest) lead2"
    by (simp_all add: w7 lead_matches_def lead1_def lead2_def)
  have valid7: "\<not> leadWhere_invalid (leads_where_part_007 env0 ?u listRequest)"
    by (simp add: w7 leadWhere_invalid_def)
  have page7: "skipTake 0 20 [lead1] = Some [lead1]"
    by (simp add: skipTake_def)
  have tp7: "totalPages (length [lead1]) 20 = Some 1"
    by (simp add: totalPages_def)
  have other: "fst (leads_GET_part_007 env0 store0 listRequest)
     = \<lparr>status = 200,
        payload = Listing [lead1]
                    \<lparr>pg_page = 1, pg_limit = 20, pg_total = 1, pg_totalPages = Some 1\<rparr>\<rparr>"
    using m7 valid7 tp7
    by (simp add: leads_GET_part_007_def leads_listing_def su rl pg ls newestFirst_def page7 Let_def)
  show ?thesis
    using p c named other by (intro conjI)
qed

end
